theory Spec2Isabelle
  imports Complex_Main
begin

section \<open>Values: errors, floats, arrays\<close>

text \<open>
  The feature extractors of \<^verbatim>\<open>microscopium/features.py\<close> are modelled as pure functions.
  An exception raised by the Python code, or by a library routine it calls, is a value
  \<open>Inl e\<close>; a returned pair (feature vector, name list) is \<open>Inr (fs, names)\<close>.
  The libraries are those the code was written for; in particular \<^verbatim>\<open>np.float\<close> is the
  float type.
\<close>

datatype error = ValueError | IndexError | TypeError | RuntimeError

type_synonym 'a result = "error + 'a"

definition bindE :: "'a result \<Rightarrow> ('a \<Rightarrow> 'b result) \<Rightarrow> 'b result" where
  "bindE r f = (case r of Inl e \<Rightarrow> Inl e | Inr x \<Rightarrow> f x)"

text \<open>
  A numpy float is a real number or one of the three special values. Rounding is not
  modelled: arithmetic on finite values is exact.
\<close>

datatype npfloat = Num real | NaN | PosInf | NegInf

text \<open>numpy's float division: a zero divisor gives nan or an infinity and a warning, never an
  exception.\<close>

definition np_div :: "real \<Rightarrow> real \<Rightarrow> npfloat" where
  "np_div x y =
     (if y = 0 then (if x = 0 then NaN else if 0 < x then PosInf else NegInf)
      else Num (x / y))"

text \<open>The comparison \<^verbatim>\<open>v > t\<close> of a float with a finite threshold.\<close>

fun np_gt :: "npfloat \<Rightarrow> real \<Rightarrow> bool" where
  "np_gt (Num x) t = (t < x)"
| "np_gt NaN t = False"
| "np_gt PosInf t = True"
| "np_gt NegInf t = False"

text \<open>\<^verbatim>\<open>np.mean\<close> of a boolean array: the share of True entries, nan (and a warning) when the
  array is empty.\<close>

definition np_mean_bool :: "bool list \<Rightarrow> npfloat" where
  "np_mean_bool bs =
     (if bs = [] then NaN else Num (real (length (filter (\<lambda>b. b) bs)) / real (length bs)))"

text \<open>
  An n-dimensional array: its shape and its elements in C order (what \<^verbatim>\<open>.ravel()\<close>
  returns). A numpy array always has \<open>length (ravel a) = prod_list (shape a)\<close>.
\<close>

datatype 'a ndarray = NDArray (shape: "nat list") (ravel: "'a list")

definition ndim :: "'a ndarray \<Rightarrow> nat" where
  "ndim a = length (shape a)"

fun strides :: "nat list \<Rightarrow> nat list" where
  "strides [] = []"
| "strides (n # ns) = prod_list ns # strides ns"

definition unravel_index :: "nat list \<Rightarrow> nat \<Rightarrow> int list" where
  "unravel_index shp i = map (\<lambda>(n, s). int ((i div s) mod n)) (zip shp (strides shp))"

section \<open>Library routines\<close>

subsection \<open>scipy.ndimage.label\<close>

text \<open>
  \<^verbatim>\<open>nd.label(mask)\<close> with the default structuring element: the connected components of
  the True pixels under face adjacency (4 neighbours in 2D, 6 in 3D), numbered 1, 2, ...
  in the order in which a C-order scan first meets them; 0 is the background. It returns
  the label image and the number of components.

  The model gives each foreground pixel its flat index plus one as a provisional label,
  lets every pixel take the least label among itself and its foreground neighbours as
  many times as there are pixels, and then numbers the surviving labels in increasing
  order.
\<close>

definition face_neighbours :: "nat list \<Rightarrow> nat \<Rightarrow> nat list" where
  "face_neighbours shp i =
     concat (map (\<lambda>(n, s). let c = (i div s) mod n in
                    (if 0 < c then [i - s] else []) @ (if Suc c < n then [i + s] else []))
                 (zip shp (strides shp)))"

definition min_label_step :: "nat list \<Rightarrow> nat list \<Rightarrow> nat list" where
  "min_label_step shp ls =
     map (\<lambda>i. if ls ! i = 0 then 0
              else fold min
                     (filter (\<lambda>l. l \<noteq> 0)
                        (map (\<lambda>j. if j < length ls then ls ! j else 0) (face_neighbours shp i)))
                     (ls ! i))
         [0..<length ls]"

primrec iterate :: "nat \<Rightarrow> ('a \<Rightarrow> 'a) \<Rightarrow> 'a \<Rightarrow> 'a" where
  "iterate 0 f x = x"
| "iterate (Suc k) f x = iterate k f (f x)"

definition provisional :: "bool ndarray \<Rightarrow> nat list" where
  "provisional a =
     iterate (length (ravel a)) (min_label_step (shape a))
       (map (\<lambda>(i, b). if b then Suc i else 0) (zip [0..<length (ravel a)] (ravel a)))"

definition nd_label :: "bool ndarray \<Rightarrow> nat ndarray \<times> nat" where
  "nd_label a =
     (let prov = provisional a;
          roots = filter (\<lambda>i. prov ! i = Suc i) [0..<length (ravel a)]
      in (NDArray (shape a) (map (\<lambda>l. length (filter (\<lambda>r. r < l) roots)) prov),
          length roots))"

subsection \<open>skimage.morphology.disk and ball, scipy.ndimage.binary_opening\<close>

text \<open>
  A structuring element is kept as its number of dimensions and the offsets of its True
  cells from its centre. \<^verbatim>\<open>disk(r)\<close> and \<^verbatim>\<open>ball(r)\<close> hold the integer points within
  Euclidean distance \<open>r\<close> of the centre; for a negative radius they are empty.
\<close>

datatype selem = Selem (se_ndim: nat) (se_offsets: "int list list")

definition ball_offsets :: "nat \<Rightarrow> int \<Rightarrow> int list list" where
  "ball_offsets d r =
     filter (\<lambda>off. sum_list (map (\<lambda>x. x * x) off) \<le> r * r)
            (product_lists (replicate d [- r..r]))"

definition disk :: "int \<Rightarrow> selem" where
  "disk r = Selem 2 (ball_offsets 2 r)"

definition ball :: "int \<Rightarrow> selem" where
  "ball r = Selem 3 (ball_offsets 3 r)"

text \<open>Reading a mask at integer coordinates; outside the array the border value False is
  read.\<close>

definition pixel_at :: "bool ndarray \<Rightarrow> int list \<Rightarrow> bool" where
  "pixel_at a cs =
     (list_all2 (\<lambda>c n. 0 \<le> c \<and> c < int n) cs (shape a) \<and>
      (let i = sum_list (map2 (\<lambda>c s. nat c * s) cs (strides (shape a)))
       in i < length (ravel a) \<and> ravel a ! i))"

definition binary_erosion :: "bool ndarray \<Rightarrow> selem \<Rightarrow> bool ndarray" where
  "binary_erosion a se =
     NDArray (shape a)
       (map (\<lambda>i. list_all (\<lambda>off. pixel_at a (map2 (+) (unravel_index (shape a) i) off))
                          (se_offsets se))
            [0..<length (ravel a)])"

definition binary_dilation :: "bool ndarray \<Rightarrow> selem \<Rightarrow> bool ndarray" where
  "binary_dilation a se =
     NDArray (shape a)
       (map (\<lambda>i. list_ex (\<lambda>off. pixel_at a (map2 (-) (unravel_index (shape a) i) off))
                         (se_offsets se))
            [0..<length (ravel a)])"

text \<open>\<^verbatim>\<open>nd.binary_opening(mask, selem)\<close>: an erosion followed by a dilation; scipy raises
  RuntimeError when the structuring element and the input differ in dimensionality.\<close>

definition binary_opening :: "bool ndarray \<Rightarrow> selem \<Rightarrow> bool ndarray result" where
  "binary_opening a se =
     (if se_ndim se \<noteq> ndim a then Inl RuntimeError
      else Inr (binary_dilation (binary_erosion a se) se))"

subsection \<open>scipy.sparse.coo_matrix(...).todense()\<close>

text \<open>
  \<^verbatim>\<open>coo_matrix((np.ones(k), (rows, cols))).todense()\<close>: the matrix whose entry \<open>(r, c)\<close>
  counts the positions \<open>i\<close> with \<open>rows[i] = r\<close> and \<open>cols[i] = c\<close>. Its shape is inferred
  as one more than the largest row and column index; scipy raises ValueError when the
  index arrays are empty or differ in length.
\<close>

definition coo_todense :: "nat list \<Rightarrow> nat list \<Rightarrow> real list list result" where
  "coo_todense rows cols =
     (if length rows \<noteq> length cols \<or> rows = [] then Inl ValueError
      else Inr (map (\<lambda>r. map (\<lambda>c. real (count_list (zip rows cols) (r, c)))
                             [0..<Suc (fold max cols 0)])
                    [0..<Suc (fold max rows 0)]))"

text \<open>\<^verbatim>\<open>m[:, j]\<close> on a dense matrix: IndexError when the matrix has no column \<open>j\<close>.\<close>

definition ncols :: "'a list list \<Rightarrow> nat" where
  "ncols m = (case m of [] \<Rightarrow> 0 | r # _ \<Rightarrow> length r)"

definition column :: "'a list list \<Rightarrow> nat \<Rightarrow> 'a list result" where
  "column m j = (if j < ncols m then Inr (map (\<lambda>row. row ! j) m) else Inl IndexError)"

subsection \<open>String formatting\<close>

definition digit :: "nat \<Rightarrow> char" where
  "digit d = ''0123456789'' ! d"

fun str_nat :: "nat \<Rightarrow> string" where
  "str_nat n = (if n < 10 then [digit n] else str_nat (n div 10) @ [digit (n mod 10)])"

declare str_nat.simps [simp del]

text \<open>\<^verbatim>\<open>'%i' % k\<close>\<close>

definition fmt_i :: "int \<Rightarrow> string" where
  "fmt_i k = (if k < 0 then ''-'' @ str_nat (nat (- k)) else str_nat (nat k))"

text \<open>\<^verbatim>\<open>'%.2f' % x\<close> for a finite \<open>x\<close>: two decimals, ties to the even neighbour.\<close>

definition round_half_even :: "real \<Rightarrow> nat" where
  "round_half_even y =
     (let f = nat \<lfloor>y\<rfloor>; d = y - real f
      in if d < 1 / 2 then f else if 1 / 2 < d then Suc f else if even f then f else Suc f)"

definition fmt_2f :: "real \<Rightarrow> string" where
  "fmt_2f x =
     (let h = round_half_even (\<bar>x\<bar> * 100)
      in (if x < 0 then ''-'' else '''') @ str_nat (h div 100) @ ''.'' @
         [digit ((h mod 100) div 10), digit (h mod 10)])"

subsection \<open>numpy.bincount, skimage.util.unique_rows, numpy.concatenate\<close>

text \<open>\<^verbatim>\<open>np.bincount(xs, minlength=k)\<close>: entry \<open>v\<close> counts the occurrences of \<open>v\<close> in \<open>xs\<close>;
  the result has \<open>max(amax(xs) + 1, k)\<close> entries, and \<open>k\<close> entries for an empty \<open>xs\<close>.\<close>

definition bincount :: "nat list \<Rightarrow> nat \<Rightarrow> nat list" where
  "bincount xs minlength =
     map (\<lambda>v. count_list xs v)
         [0..<max (if xs = [] then 0 else Suc (fold max xs 0)) minlength]"

text \<open>\<^verbatim>\<open>util.unique_rows\<close> keeps one copy of every row. (The order in which the library
  returns the rows is not modelled; the rows are only counted afterwards.)\<close>

definition unique_rows :: "(nat \<times> nat) list \<Rightarrow> (nat \<times> nat) list" where
  "unique_rows rows = remdups rows"

text \<open>\<^verbatim>\<open>np.concatenate\<close> of a list of vectors raises ValueError on the empty list.\<close>

definition np_concatenate :: "'a list list \<Rightarrow> 'a list result" where
  "np_concatenate xss = (if xss = [] then Inl ValueError else Inr (concat xss))"

subsection \<open>Indexing\<close>

fun mapE :: "('a \<Rightarrow> 'b result) \<Rightarrow> 'a list \<Rightarrow> 'b list result" where
  "mapE f [] = Inr []"
| "mapE f (x # xs) = bindE (f x) (\<lambda>y. bindE (mapE f xs) (\<lambda>ys. Inr (y # ys)))"

text \<open>\<^verbatim>\<open>xs[j]\<close> for a non-negative index.\<close>

definition nth_checked :: "'a list \<Rightarrow> nat \<Rightarrow> 'a result" where
  "nth_checked xs j = (if j < length xs then Inr (xs ! j) else Inl IndexError)"

text \<open>\<^verbatim>\<open>int(x)\<close> of a float: truncation towards zero.\<close>

definition int_trunc :: "real \<Rightarrow> int" where
  "int_trunc x = (if 0 \<le> x then \<lfloor>x\<rfloor> else \<lceil>x\<rceil>)"

subsection \<open>Comparison with a threshold\<close>

text \<open>
  The \<^verbatim>\<open>threshold\<close> argument is a number or a tuple of numbers. \<^verbatim>\<open>im > threshold\<close> with a
  tuple follows numpy's broadcasting: the tuple is laid along the last axis of \<open>im\<close>, which
  must have the tuple's length unless one of the two lengths is 1; otherwise numpy raises
  ValueError.
\<close>

datatype threshold = Scalar real | Tuple "real list"

definition greater_than :: "real ndarray \<Rightarrow> threshold \<Rightarrow> bool ndarray result" where
  "greater_than im t =
     (case t of
        Scalar x \<Rightarrow> Inr (NDArray (shape im) (map (\<lambda>v. x < v) (ravel im)))
      | Tuple ts \<Rightarrow>
          (let k = length ts in
           case rev (shape im) of
             [] \<Rightarrow> Inr (NDArray [k] (concat (map (\<lambda>v. map (\<lambda>x. x < v) ts) (ravel im))))
           | n # _ \<Rightarrow>
               if k = n
               then Inr (NDArray (shape im)
                          (map (\<lambda>(i, v). ts ! (i mod n) < v) (zip [0..<length (ravel im)] (ravel im))))
               else if k = 1
               then Inr (NDArray (shape im) (map (\<lambda>v. hd ts < v) (ravel im)))
               else if n = 1
               then Inr (NDArray (butlast (shape im) @ [k])
                          (concat (map (\<lambda>v. map (\<lambda>x. x < v) ts) (ravel im))))
               else Inl ValueError))"

subsection \<open>Random source\<close>

text \<open>
  A generator is kept as its internal state. A \<^verbatim>\<open>random_seed\<close> argument is an integer seed
  or a generator object (the global generator when the caller passes None); a generator
  object is shared with the caller, so a call leaves it in a new state for the next call,
  while a seed gives every call a fresh generator.
\<close>

type_synonym rng = nat

datatype random_seed = Seed int | Generator rng

text \<open>The caller's \<^verbatim>\<open>random_seed\<close> after a call that left its generator in state \<open>g\<close>.\<close>

definition after_call :: "random_seed \<Rightarrow> rng \<Rightarrow> random_seed" where
  "after_call random_seed g = (case random_seed of Seed k \<Rightarrow> Seed k | Generator _ \<Rightarrow> Generator g)"

subsection \<open>Routines taken as parameters\<close>

text \<open>
  The numerical routines whose values no property below depends on are parameters of the
  model: Otsu's threshold of an image, the local threshold at each pixel (by flat index)
  for a block size, a named property of the object with a given label
  (\<^verbatim>\<open>getattr(region, prop)\<close>), the quantile of a sample that is not empty at a
  probability, the state of a generator made from a seed, and one step of a generator: the
  raw number it gives and its next state. They are taken to return without raising.

  One more parameter is not a routine but the memory: \<open>unwritten L c k\<close> is what the fresh
  buffer that \<^verbatim>\<open>mquantiles\<close> allocates for column \<open>c\<close> happens to hold at position \<open>k\<close>.
  Nothing is assumed about it.
\<close>

record lib =
  threshold_otsu :: "real ndarray \<Rightarrow> real"
  threshold_local :: "real ndarray \<Rightarrow> int \<Rightarrow> nat \<Rightarrow> real"
  region_prop :: "string \<Rightarrow> nat ndarray \<Rightarrow> real ndarray \<Rightarrow> nat \<Rightarrow> real"
  quantile :: "real list \<Rightarrow> real \<Rightarrow> npfloat"
  unwritten :: "nat \<Rightarrow> nat \<Rightarrow> npfloat"
  seed_state :: "int \<Rightarrow> rng"
  rng_draw :: "rng \<Rightarrow> nat \<times> rng"

text \<open>
  Entry \<open>(k, c)\<close> of \<^verbatim>\<open>mquantiles(table, prob, axis=0)\<close>, for a table given by its rows: the
  quantile of column \<open>c\<close> at the probability \<open>prob[k]\<close>. For a column without entries (a
  table without rows) scipy returns a masked array over a buffer from \<^verbatim>\<open>np.empty\<close>, which it
  never writes; the extractors read the data under the mask (\<^verbatim>\<open>np.concatenate\<close> and
  \<^verbatim>\<open>ravel\<close> drop the mask), so the entry is what the memory holds.
\<close>

definition mquantile :: "lib \<Rightarrow> real list list \<Rightarrow> real list \<Rightarrow> nat \<Rightarrow> nat \<Rightarrow> npfloat" where
  "mquantile L table prob k c =
     (let column = map (\<lambda>row. row ! c) table
      in if column = [] then unwritten L c k else quantile L column (prob ! k))"

text \<open>\<^verbatim>\<open>np.random.RandomState(seed)\<close>: numpy raises ValueError for a seed outside
  \<open>[0, 2^32 - 1]\<close>.\<close>

definition RandomState :: "lib \<Rightarrow> int \<Rightarrow> rng result" where
  "RandomState L seed =
     (if 0 \<le> seed \<and> seed < 2 ^ 32 then Inr (seed_state L seed) else Inl ValueError)"

text \<open>\<^verbatim>\<open>random.randint(low, high, size=k)\<close>: \<open>k\<close> numbers in \<open>[low, high)\<close>, drawn one after the
  other. numpy raises ValueError for an empty range unless no sample is asked for.\<close>

fun draws :: "lib \<Rightarrow> rng \<Rightarrow> int \<Rightarrow> int \<Rightarrow> nat \<Rightarrow> int list \<times> rng" where
  "draws L g low high 0 = ([], g)"
| "draws L g low high (Suc k) =
     (let (x, g) = rng_draw L g;
          (xs, g) = draws L g low high k
      in ((low + int x mod (high - low)) # xs, g))"

definition randint :: "lib \<Rightarrow> rng \<Rightarrow> int \<Rightarrow> int \<Rightarrow> nat \<Rightarrow> (int list \<times> rng) result" where
  "randint L g low high k =
     (if high \<le> low \<and> k \<noteq> 0 then Inl ValueError else Inr (draws L g low high k))"

text \<open>
  Modelled from the spec: \<^verbatim>\<open>normalise_random_state\<close> of \<^verbatim>\<open>microscopium/_util.py\<close> is not
  among the sources. The random source is "a seed or stateful generator": a seed makes a
  new generator (\<^verbatim>\<open>RandomState(seed)\<close>, which may raise), a generator object is used as it
  is.
\<close>

definition normalise_random_state :: "lib \<Rightarrow> random_seed \<Rightarrow> rng result" where
  "normalise_random_state L random_seed =
     (case random_seed of Seed k \<Rightarrow> RandomState L k | Generator g \<Rightarrow> Inr g)"

subsection \<open>skimage.measure.regionprops\<close>

text \<open>
  \<^verbatim>\<open>measure.regionprops(lab_im, intensity_image)\<close> lists the objects of a label image, one
  for each label from 1 to the largest that some pixel carries, in increasing order; an
  object is kept here as its label. skimage raises TypeError for an image that is not 2D or
  3D, and ValueError on building an object when the intensity image has another shape.
\<close>

definition regionprops :: "nat ndarray \<Rightarrow> real ndarray option \<Rightarrow> nat list result" where
  "regionprops lab_im intensity_image =
     (if ndim lab_im \<noteq> 2 \<and> ndim lab_im \<noteq> 3 then Inl TypeError
      else let objects = filter (\<lambda>l. l \<in> set (ravel lab_im))
                                [1..<Suc (fold max (ravel lab_im) 0)]
           in if objects \<noteq> [] \<and>
                 (case intensity_image of None \<Rightarrow> False | Some im \<Rightarrow> shape im \<noteq> shape lab_im)
              then Inl ValueError
              else Inr objects)"

text \<open>The centroid of an object: the mean coordinates of its pixels.\<close>

definition centroid :: "nat ndarray \<Rightarrow> nat \<Rightarrow> real list" where
  "centroid lab_im l =
     (let idx = filter (\<lambda>i. ravel lab_im ! i = l) [0..<length (ravel lab_im)]
      in map (\<lambda>k. sum_list (map (\<lambda>i. real_of_int (unravel_index (shape lab_im) i ! k)) idx) /
                  real (length idx))
             [0..<ndim lab_im])"

subsection \<open>sklearn.neighbors.NearestNeighbors\<close>

definition euclid :: "real list \<Rightarrow> real list \<Rightarrow> real" where
  "euclid p q = sqrt (sum_list (map2 (\<lambda>a b. (a - b) * (a - b)) p q))"

text \<open>For every point the indices of its \<open>k\<close> nearest points (itself among them), nearest
  first, and the distances to them. Points at equal distance are ordered by index here.\<close>

definition kneighbors :: "real list list \<Rightarrow> nat \<Rightarrow> real list list \<times> nat list list" where
  "kneighbors pts k =
     (let indices = map (\<lambda>p. take k (sort_key (\<lambda>j. euclid p (pts ! j)) [0..<length pts])) pts
      in (map2 (\<lambda>p js. map (\<lambda>j. euclid p (pts ! j)) js) pts indices, indices))"

text \<open>
  \<^verbatim>\<open>NearestNeighbors(n_neighbors=k, algorithm='kd_tree').fit(pts).kneighbors(pts)\<close>. sklearn
  raises ValueError when there is no point to fit (an empty list of centroids is a
  one-dimensional array), when \<open>k\<close> is not positive, and when more neighbours are asked for
  than there are points.
\<close>

definition fit_kneighbors ::
  "real list list \<Rightarrow> int \<Rightarrow> (real list list \<times> nat list list) result" where
  "fit_kneighbors pts k =
     (if pts = [] then Inl ValueError
      else if k \<le> 0 then Inl ValueError
      else if int (length pts) < k then Inl ValueError
      else Inr (kneighbors pts (nat k)))"

section \<open>The feature extractors\<close>

subsection \<open>normalize_vectors, triplet_angles\<close>

definition normalize_vectors :: "real list list \<Rightarrow> real list list" where
  "normalize_vectors v =
     map (\<lambda>row. let v_norm = sqrt (sum_list (map (\<lambda>x. x * x) row));
                    v_norm = (if v_norm = 0 then 1 else v_norm)
                in map (\<lambda>x. x / v_norm) row) v"

definition triplet_angles :: "real list list \<Rightarrow> nat list list \<Rightarrow> real list result" where
  "triplet_angles points indices =
     bindE (column indices 0) (\<lambda>i0.
     bindE (column indices 1) (\<lambda>i1.
     bindE (column indices 2) (\<lambda>i2.
     bindE (mapE (nth_checked points) i0) (\<lambda>roots.
     bindE (mapE (nth_checked points) i1) (\<lambda>leaf1.
     bindE (mapE (nth_checked points) i2) (\<lambda>leaf2.
       let u = normalize_vectors (map2 (map2 (-)) leaf1 roots);
           v = normalize_vectors (map2 (map2 (-)) leaf2 roots);
           cosines = map2 (\<lambda>a b. sum_list (map2 (*) a b)) u v;
           cosines = map (\<lambda>c. if 1 < c then 1 else c) cosines;
           cosines = map (\<lambda>c. if c < - 1 then - 1 else c) cosines
       in Inr (map arccos cosines)))))))"

subsection \<open>nearest_neighbors\<close>

text \<open>The \<^verbatim>\<open>lab_im\<close> argument is a boolean mask, which is labelled first, or a label image.\<close>

datatype label_input = Mask "bool ndarray" | Labels "nat ndarray"

definition nearest_neighbors ::
  "lib \<Rightarrow> label_input \<Rightarrow> int \<Rightarrow> real list \<Rightarrow> (npfloat list \<times> string list) result" where
  "nearest_neighbors L lab_im n quantiles =
     (let lab_im = (case lab_im of Mask m \<Rightarrow> fst (nd_label m) | Labels l \<Rightarrow> l) in
      bindE (regionprops lab_im None) (\<lambda>objects.
      let centroids = map (centroid lab_im) objects in
      bindE (fit_kneighbors centroids (n + 1)) (\<lambda>(distances, indices).
      bindE (triplet_angles centroids (map (take 3) indices)) (\<lambda>angles.
        let angles = map (\<lambda>a. if pi < a then 2 * pi - a else a) angles;
            distances = map2 (\<lambda>a row. row[0 := a]) angles distances;
            features = map2 (\<lambda>a row. [sin a, cos a] @ row) angles distances;
            nei = concat (map (\<lambda>k. map (\<lambda>c. mquantile L features quantiles k c)
                                        [0..<ncols features])
                              [0..<length quantiles]);
            colnames = [''sin-theta'', ''cos-theta'', ''theta''] @
                       map (\<lambda>i. ''d-neighbor-'' @ fmt_i i @ ''-'') [1..n];
            names = map (\<lambda>(colname, q). colname @ ''-percentile-'' @ fmt_i (int_trunc (q * 100)))
                        (List.product colnames quantiles)
        in Inr (nei, names)))))"

subsection \<open>object_features, intensity_object_features\<close>

definition object_features ::
  "lib \<Rightarrow> bool ndarray \<Rightarrow> real ndarray \<Rightarrow> int \<Rightarrow> nat option \<Rightarrow> random_seed \<Rightarrow>
   ((npfloat list \<times> string list) \<times> random_seed) result" where
  "object_features L bin_im im erode sample_size random_seed =
     bindE (normalise_random_state L random_seed) (\<lambda>random.
      bindE (if ndim im = 2 then Inr (disk erode)
             else if ndim im = 3 then Inr (ball erode)
             else Inl ValueError) (\<lambda>selem.
      bindE (if 0 < erode then binary_opening bin_im selem else Inr bin_im) (\<lambda>bin_im.
      let (lab_im, n_objs) = nd_label bin_im in
      bindE (case sample_size of
               None \<Rightarrow> Inr (n_objs, [0..<n_objs], random)
             | Some k \<Rightarrow> bindE (randint L random 0 (int n_objs) k)
                          (\<lambda>(js, random). Inr (k, map nat js, random)))
        (\<lambda>(sample_size, sample_indices, random).
      let prop_names =
            (if ndim im = 2
             then [''area'', ''eccentricity'', ''euler_number'', ''extent'',
                   ''min_intensity'', ''mean_intensity'', ''max_intensity'', ''solidity'']
             else [''area'', ''euler_number'', ''extent'',
                   ''min_intensity'', ''mean_intensity'', ''max_intensity'', ''solidity''])
      in
      bindE (regionprops lab_im (Some im)) (\<lambda>objects.
      bindE (mapE (\<lambda>j. bindE (nth_checked objects j) (\<lambda>obj.
                     Inr (map (\<lambda>prop. region_prop L prop lab_im im obj) prop_names)))
                  sample_indices) (\<lambda>properties.
        let quantiles = [5 / 100, 25 / 100, 5 / 10, 75 / 100, 95 / 100];
            feature_quantiles =
              map (\<lambda>c. map (\<lambda>k. mquantile L properties quantiles k c) [0..<length quantiles])
                  [0..<length prop_names];
            fs = Num (real n_objs) # concat feature_quantiles;
            names = ''num-objs'' #
                    map (\<lambda>(prop, q). prop @ ''-percentile'' @ fmt_i (int_trunc (q * 100)))
                        (List.product prop_names quantiles)
        in Inr ((fs, names), after_call random_seed random)))))))"

definition intensity_object_features ::
  "lib \<Rightarrow> real ndarray \<Rightarrow> threshold option \<Rightarrow> int \<Rightarrow> nat option \<Rightarrow> random_seed \<Rightarrow>
   ((npfloat list \<times> string list) \<times> random_seed) result" where
  "intensity_object_features L im threshold adaptive_t_radius sample_size random_seed =
     (case threshold of
        None \<Rightarrow>
          (let tim1 = NDArray (shape im) (map (\<lambda>v. threshold_otsu L im < v) (ravel im)) in
           bindE (object_features L tim1 im 2 sample_size random_seed)
             (\<lambda>((f1, names1), random_seed).
                let names1 = map (\<lambda>name. ''otsu-threshold-'' @ name) names1 in
                if ndim im = 2
                then (let tim2 = NDArray (shape im)
                                   (map (\<lambda>(i, v). threshold_local L im adaptive_t_radius i < v)
                                        (zip [0..<length (ravel im)] (ravel im))) in
                      bindE (object_features L tim2 im 2 sample_size random_seed)
                        (\<lambda>((f2, names2), random_seed).
                           let names2 = map (\<lambda>name. ''adaptive-threshold-'' @ name) names2
                           in Inr ((f1 @ f2, names1 @ names2), random_seed)))
                else Inr ((f1, names1), random_seed)))
      | Some t \<Rightarrow>
          bindE (greater_than im t) (\<lambda>tim.
            object_features L tim im 2 sample_size random_seed))"

subsection \<open>fraction_positive\<close>

definition fraction_positive ::
  "bool ndarray \<Rightarrow> bool ndarray \<Rightarrow> int \<Rightarrow> real \<Rightarrow> string \<Rightarrow> string \<Rightarrow>
   (npfloat list \<times> string list) result" where
  "fraction_positive bin_im positive_im erode overlap_thresh bin_name positive_name =
     (let selem = disk erode in
      bindE (if 0 < erode
             then bindE (binary_opening bin_im selem) (\<lambda>b.
                  bindE (binary_opening positive_im selem) (\<lambda>p. Inr (b, p)))
             else Inr (bin_im, positive_im))
        (\<lambda>(bin_im, positive_im).
           let lab_im = ravel (fst (nd_label bin_im));
               pos_im = map (\<lambda>b. if b then 1 else 0) (ravel positive_im)
           in bindE (coo_todense lab_im pos_im) (\<lambda>counts.
              bindE (column counts 1) (\<lambda>col1.
                let means = map2 (\<lambda>c row. np_div c (sum_list row)) col1 counts;
                    f = [np_mean_bool (map (\<lambda>m. np_gt m overlap_thresh) (drop 1 means))];
                    name = [''frac-'' @ bin_name @ ''-pos-'' @ positive_name @ ''-erode-'' @
                            fmt_i erode @ ''-thresh-'' @ fmt_2f overlap_thresh]
                in Inr (f, name)))))"

subsection \<open>nuclei_per_cell_histogram\<close>

text \<open>The table \<^verbatim>\<open>match\<close> of the source: the distinct (nucleus label, cell label) pairs of the
  pixels, the pair (0, 0) left out.\<close>

definition match_table :: "nat ndarray \<Rightarrow> nat ndarray \<Rightarrow> (nat \<times> nat) list" where
  "match_table nuc_lab cell_lab =
     (let match = zip (ravel nuc_lab) (ravel cell_lab);
          match = filter (\<lambda>(n, c). n + c \<noteq> 0) match
      in unique_rows match)"

text \<open>The array \<^verbatim>\<open>cells\<close> of the source: entry \<open>c\<close> is the number of rows of the table
  whose cell label is \<open>c\<close>.\<close>

definition cells_of :: "(nat \<times> nat) list \<Rightarrow> nat list" where
  "cells_of match = bincount (map snd match) 0"

definition nuclei_per_cell_histogram ::
  "bool ndarray \<Rightarrow> bool ndarray \<Rightarrow> nat \<Rightarrow> (npfloat list \<times> string list) result" where
  "nuclei_per_cell_histogram nuc_im cell_im max_value =
     (let names = map (\<lambda>n. ''cells-with-'' @ fmt_i (int n) @ ''-nuclei'') [0..<max_value + 1];
          names = names @ [''cells-with->'' @ fmt_i (int max_value) @ ''-nuclei''];
          nuc_lab = fst (nd_label nuc_im);
          cell_lab = fst (nd_label cell_im)
      in if length (ravel nuc_lab) \<noteq> length (ravel cell_lab) then Inl ValueError
         else let match = match_table nuc_lab cell_lab;
                  cells = cells_of match;
                  nhist = bincount cells (max_value + 2);
                  total = sum_list nhist;
                  fs = map real (take (max_value + 1) nhist) @
                       [real (sum_list (drop (max_value + 1) nhist))]
              in Inr (map (\<lambda>x. np_div x (real total)) fs, names))"

subsection \<open>default_feature_map\<close>

text \<open>\<^verbatim>\<open>image[..., i]\<close>: channel \<open>i\<close> of the last axis, a negative \<open>i\<close> counting from the end;
  IndexError when the image has no axis or no such channel.\<close>

definition channel :: "real ndarray \<Rightarrow> int \<Rightarrow> real ndarray result" where
  "channel img i =
     (case rev (shape img) of
        [] \<Rightarrow> Inl IndexError
      | c # _ \<Rightarrow>
          let j = (if i < 0 then int c + i else i) in
          if 0 \<le> j \<and> j < int c
          then Inr (NDArray (butlast (shape img))
                     (map (\<lambda>p. ravel img ! (p * c + nat j)) [0..<length (ravel img) div c]))
          else Inl IndexError)"

text \<open>The loop over the channels, with the two accumulators and the random source.\<close>

fun feature_loop ::
  "lib \<Rightarrow> threshold option \<Rightarrow> nat option \<Rightarrow> (real ndarray \<times> string) list \<Rightarrow> random_seed \<Rightarrow>
   npfloat list list \<Rightarrow> string list \<Rightarrow>
   ((npfloat list list \<times> string list) \<times> random_seed) result" where
  "feature_loop L threshold sample_size [] random_seed all_fs all_names =
     Inr ((all_fs, all_names), random_seed)"
| "feature_loop L threshold sample_size ((im, prefix) # rest) random_seed all_fs all_names =
     bindE (intensity_object_features L im threshold 51 sample_size random_seed)
       (\<lambda>((fs, names), random_seed).
          let names = map (\<lambda>name. prefix @ ''-'' @ name) names
          in feature_loop L threshold sample_size rest random_seed
               (all_fs @ [fs]) (all_names @ names))"

definition default_feature_map ::
  "lib \<Rightarrow> real ndarray \<Rightarrow> threshold option \<Rightarrow> int list option \<Rightarrow> string list option \<Rightarrow>
   nat option \<Rightarrow> random_seed \<Rightarrow> ((npfloat list \<times> string list) \<times> random_seed) result" where
  "default_feature_map L img threshold channels channel_names sample_size random_seed =
     bindE (case channels of
              None \<Rightarrow> (case rev (shape img) of
                         [] \<Rightarrow> Inl IndexError
                       | c # _ \<Rightarrow> Inr (map int [0..<c]))
            | Some cs \<Rightarrow> Inr cs) (\<lambda>channels.
     bindE (mapE (channel img) channels) (\<lambda>images.
       let channel_names = (case channel_names of
                              None \<Rightarrow> map (\<lambda>i. ''chan'' @ fmt_i i) channels
                            | Some ns \<Rightarrow> ns)
       in bindE (feature_loop L threshold sample_size (zip images channel_names)
                   random_seed [] [])
            (\<lambda>((all_fs, all_names), random_seed).
               bindE (np_concatenate all_fs) (\<lambda>fs. Inr ((fs, all_names), random_seed)))))"

section \<open>A library instance for examples\<close>

text \<open>Constant routines, and a memory that holds another number at every place, to run the
  extractors on concrete images.\<close>

definition lib0 :: lib where
  "lib0 = \<lparr>threshold_otsu = (\<lambda>im. 0), threshold_local = (\<lambda>im r i. 0),
           region_prop = (\<lambda>prop lab_im im obj. 0), quantile = (\<lambda>xs q. Num 0),
           unwritten = (\<lambda>c k. Num (real (10 * c + k))),
           seed_state = (\<lambda>seed. 0), rng_draw = (\<lambda>g. (g, Suc g))\<rparr>"

section \<open>Notions used in the statements\<close>

text \<open>The mask after the optional smoothing of the extractors: opened with a disk of radius
  \<open>erode\<close> when that radius is positive, unchanged otherwise (for a 2D mask).\<close>

definition after_opening :: "bool ndarray \<Rightarrow> int \<Rightarrow> bool ndarray" where
  "after_opening m erode =
     (if 0 < erode then binary_dilation (binary_erosion m (disk erode)) (disk erode) else m)"

text \<open>The number of distinct sub-objects (positive labels of \<open>nuc_lab\<close>) with a pixel in the
  container \<open>c\<close> of \<open>cell_lab\<close>.\<close>

definition nuclei_in_cell :: "nat ndarray \<Rightarrow> nat ndarray \<Rightarrow> nat \<Rightarrow> nat" where
  "nuclei_in_cell nuc_lab cell_lab c =
     length (remdups (filter (\<lambda>n. n \<noteq> 0)
       (map fst (filter (\<lambda>(n, c'). c' = c) (zip (ravel nuc_lab) (ravel cell_lab))))))"

text \<open>The mask after the optional smoothing with a given structuring element, and the
  structuring element \<^verbatim>\<open>object_features\<close> takes for an image: a disk in 2D, a ball in 3D.\<close>

definition smoothed :: "bool ndarray \<Rightarrow> selem \<Rightarrow> int \<Rightarrow> bool ndarray" where
  "smoothed m se erode =
     (if 0 < erode then binary_dilation (binary_erosion m se) se else m)"

definition selem_of :: "real ndarray \<Rightarrow> int \<Rightarrow> selem" where
  "selem_of im erode = (if ndim im = 2 then disk erode else ball erode)"

text \<open>A random source that numpy accepts: a generator object, or a seed in
  \<open>[0, 2^32 - 1]\<close>.\<close>

definition seed_accepted :: "random_seed \<Rightarrow> bool" where
  "seed_accepted random_seed =
     (case random_seed of Seed k \<Rightarrow> 0 \<le> k \<and> k < 2 ^ 32 | Generator g \<Rightarrow> True)"

text \<open>The number of objects of a label image: its distinct positive labels.\<close>

definition n_objects :: "nat ndarray \<Rightarrow> nat" where
  "n_objects lab_im = length (remdups (filter (\<lambda>l. 0 < l) (ravel lab_im)))"

text \<open>The label image \<^verbatim>\<open>nearest_neighbors\<close> works on.\<close>

definition labels_of :: "label_input \<Rightarrow> nat ndarray" where
  "labels_of lab_im = (case lab_im of Mask m \<Rightarrow> fst (nd_label m) | Labels l \<Rightarrow> l)"

section \<open>Basic facts\<close>

lemma bindE_Inr [simp]: "bindE (Inr x) f = f x"
  by (simp add: bindE_def)

lemma bindE_Inl [simp]: "bindE (Inl e) f = Inl e"
  by (simp add: bindE_def)

section \<open>Labelling: label 0 is the background\<close>

lemma fold_min_le: "fold min ys (x::nat) \<le> x"
proof (induction ys arbitrary: x)
  case Nil
  show ?case by simp
next
  case (Cons a ys)
  have "fold min ys (min a x) \<le> min a x" by (rule Cons.IH)
  then show ?case by simp
qed

lemma fold_min_ge: "c \<le> (x::nat) \<Longrightarrow> \<forall>y\<in>set ys. c \<le> y \<Longrightarrow> c \<le> fold min ys x"
  by (induction ys arbitrary: x) auto

lemma length_min_label_step [simp]: "length (min_label_step shp ls) = length ls"
  by (simp add: min_label_step_def)

lemma nth_min_label_step:
  "i < length ls \<Longrightarrow>
   min_label_step shp ls ! i =
     (if ls ! i = 0 then 0
      else fold min
             (filter (\<lambda>l. l \<noteq> 0)
                (map (\<lambda>j. if j < length ls then ls ! j else 0) (face_neighbours shp i)))
             (ls ! i))"
  by (simp add: min_label_step_def)

lemma min_label_step_lower:
  assumes "i < length ls" and "ls ! i \<noteq> 0" and "c \<le> ls ! i"
    and "\<forall>j<length ls. ls ! j \<noteq> 0 \<longrightarrow> c \<le> ls ! j"
  shows "c \<le> min_label_step shp ls ! i"
proof -
  have "\<forall>y\<in>set (filter (\<lambda>l. l \<noteq> 0)
                (map (\<lambda>j. if j < length ls then ls ! j else 0) (face_neighbours shp i))). c \<le> y"
    using assms(4) by auto
  then show ?thesis
    using assms(1-3) by (simp add: nth_min_label_step fold_min_ge)
qed

lemma min_label_step_zero_iff:
  assumes "i < length ls"
  shows "(min_label_step shp ls ! i = 0) = (ls ! i = 0)"
proof (cases "ls ! i = 0")
  case True
  then show ?thesis using assms by (simp add: nth_min_label_step)
next
  case False
  have "Suc 0 \<le> min_label_step shp ls ! i"
    using assms False by (intro min_label_step_lower) auto
  then show ?thesis using False by simp
qed

lemma min_label_step_upper:
  "i < length ls \<Longrightarrow> min_label_step shp ls ! i \<le> ls ! i"
  by (simp add: nth_min_label_step fold_min_le)

lemma iterate_invariant:
  "P x \<Longrightarrow> (\<And>y. P y \<Longrightarrow> P (f y)) \<Longrightarrow> P (iterate k f x)"
  by (induction k arbitrary: x) auto

lemma nd_label_provisional:
  "nd_label a =
     (NDArray (shape a)
        (map (\<lambda>l. length (filter (\<lambda>r. r < l)
                      (filter (\<lambda>i. provisional a ! i = Suc i) [0..<length (ravel a)])))
             (provisional a)),
      length (filter (\<lambda>i. provisional a ! i = Suc i) [0..<length (ravel a)]))"
  by (simp add: nd_label_def Let_def)

lemma provisional_basic:
  "length (provisional a) = length (ravel a) \<and>
   (\<forall>i<length (ravel a). (provisional a ! i \<noteq> 0) = ravel a ! i)"
  unfolding provisional_def
proof (rule iterate_invariant)
  show "length (map (\<lambda>(i, b). if b then Suc i else 0) (zip [0..<length (ravel a)] (ravel a))) =
          length (ravel a) \<and>
        (\<forall>i<length (ravel a).
           (map (\<lambda>(i, b). if b then Suc i else 0) (zip [0..<length (ravel a)] (ravel a)) ! i \<noteq> 0) =
           ravel a ! i)"
    by simp
next
  fix ls :: "nat list"
  assume "length ls = length (ravel a) \<and> (\<forall>i<length (ravel a). (ls ! i \<noteq> 0) = ravel a ! i)"
  then show "length (min_label_step (shape a) ls) = length (ravel a) \<and>
        (\<forall>i<length (ravel a). (min_label_step (shape a) ls ! i \<noteq> 0) = ravel a ! i)"
    by (simp add: min_label_step_zero_iff)
qed

lemma provisional_first:
  assumes "i0 < length (ravel a)" and "ravel a ! i0" and "\<forall>j<i0. \<not> ravel a ! j"
  shows "provisional a ! i0 = Suc i0 \<and>
         (\<forall>i<length (ravel a). provisional a ! i \<noteq> 0 \<longrightarrow> Suc i0 \<le> provisional a ! i)"
proof -
  let ?n = "length (ravel a)"
  let ?P = "\<lambda>ls. length ls = ?n \<and> ls ! i0 = Suc i0 \<and>
                  (\<forall>i<?n. ls ! i \<noteq> 0 \<longrightarrow> Suc i0 \<le> ls ! i)"
  have "?P (provisional a)"
    unfolding provisional_def
  proof (rule iterate_invariant)
    have "i0 \<le> i" if "ravel a ! i" for i
      using assms(3) that by (meson not_le)
    then show "?P (map (\<lambda>(i, b). if b then Suc i else 0) (zip [0..<?n] (ravel a)))"
      using assms by auto
  next
    fix ls :: "nat list"
    assume P: "?P ls"
    have up: "min_label_step (shape a) ls ! i0 \<le> Suc i0"
      using P assms(1) min_label_step_upper [of i0 ls "shape a"] by simp
    have lo: "Suc i0 \<le> min_label_step (shape a) ls ! i"
      if "i < ?n" "ls ! i \<noteq> 0" for i
      using P that by (intro min_label_step_lower) auto
    have "min_label_step (shape a) ls ! i0 = Suc i0"
      using up lo [of i0] P assms(1) by simp
    moreover have "\<forall>i<?n. min_label_step (shape a) ls ! i \<noteq> 0 \<longrightarrow>
                     Suc i0 \<le> min_label_step (shape a) ls ! i"
      using lo P by (auto simp: min_label_step_zero_iff)
    ultimately show "?P (min_label_step (shape a) ls)"
      using P by simp
  qed
  then show ?thesis by simp
qed

lemma shape_nd_label [simp]: "shape (fst (nd_label a)) = shape a"
  by (simp add: nd_label_provisional)

lemma length_nd_label [simp]: "length (ravel (fst (nd_label a))) = length (ravel a)"
  by (simp add: nd_label_provisional provisional_basic)

lemma first_foreground:
  assumes "i < length xs" and "xs ! i"
  obtains i0 where "i0 \<le> i" and "xs ! i0" and "\<forall>j<i0. \<not> xs ! j"
proof -
  define i0 where "i0 = (LEAST j. xs ! j)"
  have "xs ! i0" unfolding i0_def using assms(2) by (rule LeastI)
  moreover have "i0 \<le> i" unfolding i0_def using assms(2) by (rule Least_le)
  moreover have "\<forall>j<i0. \<not> xs ! j" unfolding i0_def using not_less_Least by blast
  ultimately show ?thesis using that by blast
qed

lemma nd_label_zero_iff:
  assumes "i < length (ravel a)"
  shows "(ravel (fst (nd_label a)) ! i \<noteq> 0) = ravel a ! i"
proof (cases "ravel a ! i")
  case False
  then have "provisional a ! i = 0"
    using provisional_basic [of a] assms by auto
  then show ?thesis
    using False assms by (simp add: nd_label_provisional provisional_basic)
next
  case True
  obtain i0 where i0: "i0 \<le> i" "ravel a ! i0" "\<forall>j<i0. \<not> ravel a ! j"
    using first_foreground [OF assms True] by blast
  have lt: "i0 < length (ravel a)" using i0(1) assms by simp
  have pf: "provisional a ! i0 = Suc i0"
       "\<forall>i<length (ravel a). provisional a ! i \<noteq> 0 \<longrightarrow> Suc i0 \<le> provisional a ! i"
    using provisional_first [OF lt i0(2,3)] by simp_all
  have "provisional a ! i \<noteq> 0"
    using provisional_basic [of a] assms True by auto
  then have "i0 < provisional a ! i" using pf(2) assms by auto
  then have "i0 \<in> set (filter (\<lambda>r. r < provisional a ! i)
                (filter (\<lambda>i. provisional a ! i = Suc i) [0..<length (ravel a)]))"
    using pf(1) lt by simp
  then have "length (filter (\<lambda>r. r < provisional a ! i)
                (filter (\<lambda>i. provisional a ! i = Suc i) [0..<length (ravel a)])) \<noteq> 0"
    by (metis length_0_conv empty_iff list.set(1))
  then show ?thesis
    using True assms by (simp add: nd_label_provisional provisional_basic)
qed

lemma nd_label_no_objects:
  "(snd (nd_label a) = 0) = (True \<notin> set (ravel a))"
proof
  assume z: "snd (nd_label a) = 0"
  show "True \<notin> set (ravel a)"
  proof
    assume "True \<in> set (ravel a)"
    then obtain i where i: "i < length (ravel a)" "ravel a ! i"
      by (auto simp: in_set_conv_nth)
    obtain i0 where i0: "i0 \<le> i" "ravel a ! i0" "\<forall>j<i0. \<not> ravel a ! j"
      using first_foreground [OF i] by blast
    have lt: "i0 < length (ravel a)" using i0(1) i(1) by simp
    have "provisional a ! i0 = Suc i0"
      using provisional_first [OF lt i0(2,3)] by simp
    then have "i0 \<in> set (filter (\<lambda>i. provisional a ! i = Suc i) [0..<length (ravel a)])"
      using lt by simp
    then show False using z by (auto simp: nd_label_provisional filter_empty_conv)
  qed
next
  assume "True \<notin> set (ravel a)"
  then have "\<forall>i<length (ravel a). \<not> ravel a ! i"
    by (metis nth_mem)
  then have "\<forall>i<length (ravel a). provisional a ! i = 0"
    using provisional_basic [of a] by auto
  then show "snd (nd_label a) = 0"
    by (simp add: nd_label_provisional filter_empty_conv)
qed

section \<open>Opening a mask without foreground\<close>

lemma pixel_at_empty: "True \<notin> set (ravel a) \<Longrightarrow> \<not> pixel_at a cs"
  unfolding pixel_at_def Let_def using nth_mem by fastforce

lemma zero_in_ball_offsets:
  assumes "0 \<le> r"
  shows "replicate d 0 \<in> set (ball_offsets d r)"
proof -
  have "list_all2 (\<lambda>x ys. x \<in> set ys) (replicate d (0::int)) (replicate d [- r..r])"
    using assms by (simp add: list_all2_conv_all_nth)
  then have "replicate d 0 \<in> set (product_lists (replicate d [- r..r]))"
    by (simp add: product_lists_set)
  moreover have "sum_list (map (\<lambda>x. x * x) (replicate d (0::int))) = 0"
    by (induction d) simp_all
  ultimately show ?thesis
    by (simp add: ball_offsets_def)
qed

lemma length_binary_erosion [simp]: "length (ravel (binary_erosion a se)) = length (ravel a)"
  by (simp add: binary_erosion_def)

lemma length_binary_dilation [simp]: "length (ravel (binary_dilation a se)) = length (ravel a)"
  by (simp add: binary_dilation_def)

lemma shape_binary_erosion [simp]: "shape (binary_erosion a se) = shape a"
  by (simp add: binary_erosion_def)

lemma shape_binary_dilation [simp]: "shape (binary_dilation a se) = shape a"
  by (simp add: binary_dilation_def)

lemma binary_dilation_empty:
  "True \<notin> set (ravel a) \<Longrightarrow> True \<notin> set (ravel (binary_dilation a se))"
  by (simp add: binary_dilation_def list_ex_iff pixel_at_empty image_iff)

lemma binary_erosion_empty:
  assumes "True \<notin> set (ravel a)" and "se_offsets se \<noteq> []"
  shows "True \<notin> set (ravel (binary_erosion a se))"
proof -
  obtain off where "off \<in> set (se_offsets se)"
    using assms(2) by (cases "se_offsets se") auto
  then have "\<not> list_all (\<lambda>off. pixel_at a (map2 (+) (unravel_index (shape a) i) off))
                (se_offsets se)" for i
    using pixel_at_empty [OF assms(1)] by (auto simp: list_all_iff)
  then show ?thesis
    by (simp add: binary_erosion_def image_iff)
qed

lemma binary_opening_empty:
  assumes "True \<notin> set (ravel a)" and "0 \<le> r" and "se = Selem d (ball_offsets d r)"
    and "binary_opening a se = Inr b"
  shows "True \<notin> set (ravel b) \<and> length (ravel b) = length (ravel a) \<and> shape b = shape a"
proof -
  have "se_offsets se \<noteq> []"
    using zero_in_ball_offsets [OF assms(2), of d] assms(3) by auto
  then have "True \<notin> set (ravel (binary_dilation (binary_erosion a se) se))"
    using assms(1) by (intro binary_dilation_empty binary_erosion_empty)
  then show ?thesis
    using assms(4) by (auto simp: binary_opening_def split: if_splits)
qed

section \<open>The shape of the overlap-count matrix\<close>

lemma fold_max_all_zero: "\<forall>c\<in>set cs. c = 0 \<Longrightarrow> fold max cs (0::nat) = 0"
  by (induction cs) simp_all

lemma fold_max_upper: "\<forall>c\<in>set cs. c \<le> m \<Longrightarrow> x \<le> m \<Longrightarrow> fold max cs (x::nat) \<le> m"
  by (induction cs arbitrary: x) simp_all

lemma fold_max_ge_init: "x \<le> fold max cs (x::nat)"
proof (induction cs arbitrary: x)
  case Nil
  show ?case by simp
next
  case (Cons c cs)
  have "max c x \<le> fold max cs (max c x)" by (rule Cons.IH)
  then show ?case by simp
qed

lemma fold_max_ge_mem: "c \<in> set cs \<Longrightarrow> c \<le> fold max cs (x::nat)"
proof (induction cs arbitrary: x)
  case Nil
  then show ?case by simp
next
  case (Cons d cs)
  show ?case
  proof (cases "c = d")
    case True
    have "max d x \<le> fold max cs (max d x)" by (rule fold_max_ge_init)
    then show ?thesis using True by simp
  next
    case False
    then have "c \<in> set cs" using Cons.prems by simp
    then show ?thesis using Cons.IH by simp
  qed
qed

lemma ncols_map_upt: "ncols (map f [0..<Suc k]) = length (f 0)"
  by (simp add: ncols_def upt_conv_Cons del: upt_Suc)

lemma coo_todense_shape:
  assumes "length rows = length cols" and "rows \<noteq> []"
  shows "\<exists>m. coo_todense rows cols = Inr m \<and> length m = Suc (fold max rows 0) \<and>
             ncols m = Suc (fold max cols 0)"
  using assms by (simp add: coo_todense_def ncols_map_upt del: upt_Suc)

section \<open>The documented example of fraction_positive\<close>

lemma counts_example:
  "coo_todense
     (ravel (fst (nd_label
        (NDArray [3, 3] [True, True, False, False, False, False, True, True, True]))))
     (map (\<lambda>b. if b then 1 else 0)
        (ravel (NDArray [3, 3] [True, False, False, False, True, True, False, True, True]))) =
   Inr [[2, 2], [1, 1], [1, 2]]"
  by code_simp

lemma fmt_example: "fmt_i 0 = ''0''" "fmt_2f (6 / 10) = ''0.60''"
  by code_simp+

text \<open>
  C5. On the reference mask \<open>[[1,1,0],[0,0,0],[1,1,1]]\<close> and the positive mask
  \<open>[[1,0,0],[0,1,1],[0,1,1]]\<close>, with erosion radius 0 and overlap threshold 0.6,
  \<^verbatim>\<open>fraction_positive\<close> returns the one value 0.5 and the one name
  \<^verbatim>\<open>frac-<ref>-pos-<pos>-erode-0-thresh-0.60\<close>, for any two class names.
\<close>

theorem fraction_positive_example:
  "fraction_positive
     (NDArray [3, 3] [True, True, False, False, False, False, True, True, True])
     (NDArray [3, 3] [True, False, False, False, True, True, False, True, True])
     0 (6 / 10) bin_name positive_name =
   Inr ([Num (5 / 10)],
        [''frac-'' @ bin_name @ ''-pos-'' @ positive_name @ ''-erode-0-thresh-0.60''])"
  unfolding fraction_positive_def Let_def
  apply (simp only: less_irrefl if_False bindE_Inr prod.case counts_example fmt_example)
  apply (simp add: column_def ncols_def np_div_def np_mean_bool_def)
  done

section \<open>fraction_positive on a positive mask without pixels\<close>

lemma smoothing_cases:
  fixes bin_im positive_im :: "bool ndarray"
  defines "sm \<equiv> \<lambda>erode. (if 0 < erode
             then bindE (binary_opening bin_im (disk erode)) (\<lambda>b.
                  bindE (binary_opening positive_im (disk erode)) (\<lambda>p. Inr (b, p)))
             else Inr (bin_im, positive_im))"
  shows "sm erode =
     (if 0 < erode \<and> (ndim bin_im \<noteq> 2 \<or> ndim positive_im \<noteq> 2) then Inl RuntimeError
      else Inr (after_opening bin_im erode, after_opening positive_im erode))"
  by (simp add: sm_def binary_opening_def disk_def after_opening_def)

lemma after_opening_empty:
  assumes "True \<notin> set (ravel m)"
  shows "True \<notin> set (ravel (after_opening m erode))"
proof (cases "0 < erode")
  case False
  then show ?thesis using assms by (simp add: after_opening_def)
next
  case True
  have "replicate 2 0 \<in> set (ball_offsets 2 erode)"
    using True by (intro zero_in_ball_offsets) simp
  then have "se_offsets (disk erode) \<noteq> []"
    by (auto simp: disk_def)
  then show ?thesis
    using assms True
    by (simp add: after_opening_def binary_dilation_empty binary_erosion_empty)
qed

lemma length_after_opening [simp]: "length (ravel (after_opening m erode)) = length (ravel m)"
  by (simp add: after_opening_def)

lemma positive_column_all_zero:
  assumes "True \<notin> set (ravel p)"
  shows "fold max (map (\<lambda>b. if b then 1 else 0) (ravel p)) (0::nat) = 0"
  using assms by (intro fold_max_all_zero) auto

text \<open>
  C10. When the positive mask has no True pixel and the reference mask has a foreground
  pixel (the two masks having as many pixels), \<^verbatim>\<open>fraction_positive\<close> returns no feature
  pair: the overlap-count matrix has a single column, and reading column 1 raises
  IndexError. (With a positive erosion radius and a mask that is not 2D, the opening raises
  RuntimeError before that.)
\<close>

theorem fraction_positive_without_positive_pixel:
  assumes "True \<notin> set (ravel positive_im)"
    and "True \<in> set (ravel bin_im)"
    and "length (ravel bin_im) = length (ravel positive_im)"
  shows "fraction_positive bin_im positive_im erode overlap_thresh bin_name positive_name =
         Inl (if 0 < erode \<and> (ndim bin_im \<noteq> 2 \<or> ndim positive_im \<noteq> 2)
              then RuntimeError else IndexError)"
proof (cases "0 < erode \<and> (ndim bin_im \<noteq> 2 \<or> ndim positive_im \<noteq> 2)")
  case True
  then show ?thesis
    unfolding fraction_positive_def Let_def smoothing_cases by simp
next
  case False
  let ?b = "after_opening bin_im erode" and ?p = "after_opening positive_im erode"
  let ?rows = "ravel (fst (nd_label ?b))"
  let ?cols = "map (\<lambda>b. if b then 1 else 0) (ravel ?p) :: nat list"
  have len: "length ?rows = length ?cols"
    using assms(3) by simp
  have "length ?rows = length (ravel bin_im)"
    by simp
  moreover have "ravel bin_im \<noteq> []"
    using assms(2) by auto
  ultimately have ne: "?rows \<noteq> []"
    by (metis length_0_conv)
  obtain m where m: "coo_todense ?rows ?cols = Inr m" "ncols m = Suc (fold max ?cols 0)"
    using coo_todense_shape [OF len ne] by blast
  have "ncols m = 1"
    using m(2) positive_column_all_zero [OF after_opening_empty [OF assms(1)], of erode]
    by simp
  then have "column m 1 = Inl IndexError"
    by (simp add: column_def)
  then show ?thesis
    unfolding fraction_positive_def Let_def smoothing_cases using False m(1) by simp
qed

theorem fraction_positive_without_positive_pixel_witness:
  "fraction_positive (NDArray [2, 2] [True, True, False, False])
     (NDArray [2, 2] [False, False, False, False]) 0 (9 / 10) ''nuclei'' ''tf'' =
   Inl IndexError"
  using fraction_positive_without_positive_pixel
    [of "NDArray [2, 2] [False, False, False, False]" "NDArray [2, 2] [True, True, False, False]"
        0 "9 / 10" "''nuclei''" "''tf''"]
  by simp

section \<open>fraction_positive on a reference mask without objects\<close>

lemma nd_label_background:
  assumes "snd (nd_label b) = 0"
  shows "ravel (fst (nd_label b)) = replicate (length (ravel b)) 0"
proof -
  have "True \<notin> set (ravel b)"
    using assms by (simp add: nd_label_no_objects)
  then have "\<forall>i<length (ravel b). \<not> ravel b ! i"
    by (metis nth_mem)
  then have "\<forall>i<length (ravel b). ravel (fst (nd_label b)) ! i = 0"
    using nd_label_zero_iff [of _ b] by blast
  then show ?thesis
    by (simp add: list_eq_iff_nth_eq)
qed

lemma fold_max_replicate_zero: "fold max (replicate n 0) (0::nat) = 0"
  by (intro fold_max_all_zero) simp

lemma positive_column_max:
  assumes "True \<in> set (ravel p)"
  shows "fold max (map (\<lambda>b. if b then 1 else 0) (ravel p)) (0::nat) = 1"
proof -
  let ?cols = "map (\<lambda>b. if b then 1 else 0) (ravel p) :: nat list"
  have "1 \<in> set ?cols"
    using assms by (auto simp: image_iff)
  then have "1 \<le> fold max ?cols 0"
    by (rule fold_max_ge_mem)
  moreover have "fold max ?cols 0 \<le> 1"
    by (intro fold_max_upper) auto
  ultimately show ?thesis by simp
qed

text \<open>
  C4, as the code has it. When the reference mask has no object after the optional opening
  and the positive mask (after the opening) has a True pixel, \<^verbatim>\<open>fraction_positive\<close> does
  not raise and returns one value with its name; the value is nan, the mean over an empty
  set of objects, and not 0.0. (For a positive erosion radius the masks are 2D, as the disk
  is.)
\<close>

theorem fraction_positive_without_objects:
  assumes "0 < erode \<longrightarrow> ndim bin_im = 2 \<and> ndim positive_im = 2"
    and "length (ravel bin_im) = length (ravel positive_im)"
    and "snd (nd_label (after_opening bin_im erode)) = 0"
    and "True \<in> set (ravel (after_opening positive_im erode))"
  shows "fraction_positive bin_im positive_im erode overlap_thresh bin_name positive_name =
         Inr ([NaN],
              [''frac-'' @ bin_name @ ''-pos-'' @ positive_name @ ''-erode-'' @
               fmt_i erode @ ''-thresh-'' @ fmt_2f overlap_thresh])"
proof -
  let ?b = "after_opening bin_im erode" and ?p = "after_opening positive_im erode"
  let ?rows = "ravel (fst (nd_label ?b))"
  let ?cols = "map (\<lambda>b. if b then 1 else 0) (ravel ?p) :: nat list"
  have sm: "\<not> (0 < erode \<and> (ndim bin_im \<noteq> 2 \<or> ndim positive_im \<noteq> 2))"
    using assms(1) by auto
  have rows: "?rows = replicate (length (ravel bin_im)) 0"
    using nd_label_background [OF assms(3)] by simp
  have len: "length ?rows = length ?cols"
    using assms(2) by simp
  have "ravel ?p \<noteq> []"
    using assms(4) by auto
  then have "length (ravel ?p) \<noteq> 0"
    by (metis length_0_conv)
  then have "length ?rows \<noteq> 0"
    using assms(2) by simp
  then have ne: "?rows \<noteq> []"
    by (metis length_0_conv)
  obtain m where m: "coo_todense ?rows ?cols = Inr m" "length m = Suc (fold max ?rows 0)"
      "ncols m = Suc (fold max ?cols 0)"
    using coo_todense_shape [OF len ne] by blast
  have "fold max ?rows 0 = 0"
    unfolding rows by (rule fold_max_replicate_zero)
  then have "length m = 1"
    using m(2) by simp
  moreover have "ncols m = 2"
    using m(3) positive_column_max [OF assms(4)] by simp
  ultimately obtain row where row: "m = [row]" "length row = 2"
    by (cases m) (auto simp: ncols_def)
  show ?thesis
    unfolding fraction_positive_def Let_def smoothing_cases
    using sm m(1) row by (simp add: column_def ncols_def np_mean_bool_def)
qed

theorem fraction_positive_without_objects_witness:
  "fraction_positive (NDArray [3, 3] [False, False, False, False, False, False, False, False, False])
     (NDArray [3, 3] [True, True, True, True, True, True, True, True, True])
     1 (9 / 10) ''nuclei'' ''tf'' =
   Inr ([NaN], [''frac-nuclei-pos-tf-erode-1-thresh-0.90''])"
proof -
  let ?b = "NDArray [3, 3] [False, False, False, False, False, False, False, False, False]"
  let ?p = "NDArray [3, 3] [True, True, True, True, True, True, True, True, True]"
  have 1: "(0::int) < 1 \<longrightarrow> ndim ?b = 2 \<and> ndim ?p = 2"
    by (simp add: ndim_def)
  have 2: "length (ravel ?b) = length (ravel ?p)"
    by simp
  have 3: "snd (nd_label (after_opening ?b 1)) = 0"
    by code_simp
  have 4: "True \<in> set (ravel (after_opening ?p 1))"
    by code_simp
  have 5: "fmt_i 1 = ''1''" "fmt_2f (9 / 10) = ''0.90''"
    by code_simp+
  show ?thesis
    using fraction_positive_without_objects [OF 1 2 3 4, of "9 / 10" "''nuclei''" "''tf''"]
    by (simp add: 5)
qed

text \<open>The claim as stated fails: on an empty reference mask the value is nan, not 0.0.\<close>

theorem fraction_positive_without_objects_counterexample:
  "fraction_positive (NDArray [2, 2] [False, False, False, False])
     (NDArray [2, 2] [True, False, False, False]) 0 (9 / 10) ''nuclei'' ''tf'' =
   Inr ([NaN], [''frac-nuclei-pos-tf-erode-0-thresh-0.90'']) \<and>
   fraction_positive (NDArray [2, 2] [False, False, False, False])
     (NDArray [2, 2] [True, False, False, False]) 0 (9 / 10) ''nuclei'' ''tf'' \<noteq>
   Inr ([Num 0], [''frac-nuclei-pos-tf-erode-0-thresh-0.90''])"
  by code_simp

section \<open>nuclei_per_cell_histogram: the proportions\<close>

lemma sum_list_indicator_upt:
  "sum_list (map (\<lambda>v. if x = v then 1 else 0) [0..<k]) = (if x < k then 1 else (0::nat))"
  by (induction k) auto

lemma sum_list_count_list_upt:
  "\<forall>x\<in>set xs. x < k \<Longrightarrow> sum_list (map (count_list xs) [0..<k]) = length xs"
proof (induction xs)
  case Nil
  show ?case by simp
next
  case (Cons x xs)
  have "sum_list (map (count_list (x # xs)) [0..<k]) =
        sum_list (map (\<lambda>v. (if x = v then 1 else 0) + count_list xs v) [0..<k])"
    by (intro arg_cong [where f = sum_list] map_cong) auto
  also have "\<dots> = sum_list (map (\<lambda>v. if x = v then 1 else 0) [0..<k]) +
                  sum_list (map (count_list xs) [0..<k])"
    by (simp add: sum_list_addf)
  also have "\<dots> = 1 + length xs"
    using Cons by (simp add: sum_list_indicator_upt)
  finally show ?case by (simp del: count_list.simps)
qed

lemma length_bincount:
  "length (bincount xs k) = max (if xs = [] then 0 else Suc (fold max xs 0)) k"
  by (simp add: bincount_def)

lemma sum_list_bincount: "sum_list (bincount xs k) = length xs"
proof (cases "xs = []")
  case True
  then show ?thesis by (simp add: bincount_def)
next
  case False
  have "x < max (Suc (fold max xs 0)) k" if "x \<in> set xs" for x
    using fold_max_ge_mem [OF that, of 0] by (simp add: less_max_iff_disj less_Suc_eq_le)
  then have "\<forall>x\<in>set xs. x < max (Suc (fold max xs 0)) k"
    by blast
  then show ?thesis
    using False by (simp add: bincount_def sum_list_count_list_upt)
qed

lemma match_table_nonempty:
  assumes "i < length (ravel nuc_lab)" and "i < length (ravel cell_lab)"
    and "ravel nuc_lab ! i \<noteq> 0 \<or> ravel cell_lab ! i \<noteq> 0"
  shows "match_table nuc_lab cell_lab \<noteq> []"
proof -
  let ?z = "zip (ravel nuc_lab) (ravel cell_lab)"
  have "?z ! i \<in> set ?z"
    using assms(1,2) by (intro nth_mem) simp
  then have "(ravel nuc_lab ! i, ravel cell_lab ! i) \<in> set ?z"
    using assms(1,2) by simp
  then have "(ravel nuc_lab ! i, ravel cell_lab ! i) \<in>
             set (filter (\<lambda>(n, c). n + c \<noteq> 0) ?z)"
    using assms(3) by auto
  then have "set (match_table nuc_lab cell_lab) \<noteq> {}"
    unfolding match_table_def unique_rows_def Let_def by auto
  then show ?thesis by auto
qed

lemma sum_list_map_divide:
  fixes xs :: "real list"
  shows "sum_list (map (\<lambda>x. x / t) xs) = sum_list xs / t"
  by (induction xs) (simp_all add: add_divide_distrib)

lemma sum_list_take_drop:
  fixes xs :: "nat list"
  shows "sum_list (take k xs) + sum_list (drop k xs) = sum_list xs"
  by (metis append_take_drop_id sum_list_append)

lemma map_np_div:
  "t \<noteq> 0 \<Longrightarrow> map (\<lambda>x. np_div x t) fs = map Num (map (\<lambda>x. x / t) fs)"
  by (simp add: np_div_def)

lemma sum_list_divide_self:
  fixes fs :: "real list"
  shows "sum_list fs = t \<Longrightarrow> t \<noteq> 0 \<Longrightarrow> sum_list (map (\<lambda>x. x / t) fs) = 1"
  by (simp add: sum_list_map_divide)

lemma real_sum_list: "sum_list (map real xs) = real (sum_list xs)"
  by (induction xs) simp_all

lemma histogram_proportions:
  assumes "length (ravel nuc_im) = length (ravel cell_im)"
    and "i < length (ravel nuc_im)"
    and "ravel nuc_im ! i \<or> ravel cell_im ! i"
  shows "\<exists>xs names. nuclei_per_cell_histogram nuc_im cell_im max_value = Inr (map Num xs, names) \<and>
           length xs = max_value + 2 \<and> sum_list xs = 1"
proof -
  let ?nuc = "fst (nd_label nuc_im)" and ?cell = "fst (nd_label cell_im)"
  let ?match = "match_table ?nuc ?cell"
  let ?cells = "cells_of ?match"
  let ?nhist = "bincount ?cells (max_value + 2)"
  let ?total = "sum_list ?nhist"
  let ?fs = "map real (take (max_value + 1) ?nhist) @
             [real (sum_list (drop (max_value + 1) ?nhist))]"
  have "ravel ?nuc ! i \<noteq> 0 \<or> ravel ?cell ! i \<noteq> 0"
    using assms nd_label_zero_iff [of i nuc_im] nd_label_zero_iff [of i cell_im] by auto
  then have "?match \<noteq> []"
    using assms(1,2) by (intro match_table_nonempty [of i]) simp_all
  then have "length ?cells \<noteq> 0"
    by (simp add: cells_of_def length_bincount)
  then have total: "?total \<noteq> 0"
    by (simp add: sum_list_bincount)
  have len: "max_value + 2 \<le> length ?nhist"
    by (simp add: length_bincount)
  have "sum_list ?fs =
        real (sum_list (take (max_value + 1) ?nhist) + sum_list (drop (max_value + 1) ?nhist))"
    by (simp add: real_sum_list)
  then have sum: "sum_list ?fs = real ?total"
    by (simp only: sum_list_take_drop)
  let ?xs = "map (\<lambda>x. x / real ?total) ?fs"
  have rtotal: "real ?total \<noteq> 0"
    using total by (simp only: of_nat_eq_0_iff not_False_eq_True)
  have 1: "map (\<lambda>x. np_div x (real ?total)) ?fs = map Num ?xs"
    using rtotal by (rule map_np_div)
  have 2: "length ?xs = max_value + 2"
    using len by simp
  have 3: "sum_list ?xs = 1"
    using sum rtotal by (rule sum_list_divide_self)
  have "nuclei_per_cell_histogram nuc_im cell_im max_value =
        Inr (map (\<lambda>x. np_div x (real ?total)) ?fs,
             map (\<lambda>n. ''cells-with-'' @ fmt_i (int n) @ ''-nuclei'') [0..<max_value + 1] @
             [''cells-with->'' @ fmt_i (int max_value) @ ''-nuclei''])"
    using assms(1) by (simp add: nuclei_per_cell_histogram_def Let_def)
  then have "nuclei_per_cell_histogram nuc_im cell_im max_value =
        Inr (map Num ?xs,
             map (\<lambda>n. ''cells-with-'' @ fmt_i (int n) @ ''-nuclei'') [0..<max_value + 1] @
             [''cells-with->'' @ fmt_i (int max_value) @ ''-nuclei''])"
    by (simp only: 1)
  then show ?thesis
    using 2 3 by blast
qed

lemma histogram_length:
  assumes "length (ravel nuc_im) = length (ravel cell_im)"
  shows "\<exists>fs names. nuclei_per_cell_histogram nuc_im cell_im max_value = Inr (fs, names) \<and>
           length fs = max_value + 2"
  using assms by (simp add: nuclei_per_cell_histogram_def Let_def length_bincount)

text \<open>
  C8. For two images with as many pixels, \<^verbatim>\<open>nuclei_per_cell_histogram\<close> returns a vector of
  \<open>max_value + 2\<close> entries; when some pixel is foreground in one of the two images (in
  particular when a container has a pixel paired with a sub-object pixel), the entries are
  finite and sum to 1. Floats are taken as reals, so the sum is exactly 1.
\<close>

theorem nuclei_per_cell_histogram_sums_to_one:
  assumes "length (ravel nuc_im) = length (ravel cell_im)"
  shows "\<exists>fs names. nuclei_per_cell_histogram nuc_im cell_im max_value = Inr (fs, names) \<and>
           length fs = max_value + 2 \<and>
           ((\<exists>i<length (ravel nuc_im). ravel nuc_im ! i \<or> ravel cell_im ! i) \<longrightarrow>
            (\<exists>xs. fs = map Num xs \<and> sum_list xs = 1))"
proof -
  obtain fs names where r: "nuclei_per_cell_histogram nuc_im cell_im max_value = Inr (fs, names)"
      "length fs = max_value + 2"
    using histogram_length [OF assms] by blast
  have "\<exists>xs. fs = map Num xs \<and> sum_list xs = 1"
    if ex: "\<exists>i<length (ravel nuc_im). ravel nuc_im ! i \<or> ravel cell_im ! i"
  proof -
    obtain i where "i < length (ravel nuc_im)" "ravel nuc_im ! i \<or> ravel cell_im ! i"
      using ex by blast
    then obtain xs names' where
      "nuclei_per_cell_histogram nuc_im cell_im max_value = Inr (map Num xs, names')"
      "sum_list xs = 1"
      using histogram_proportions [OF assms, of i max_value] by blast
    then show ?thesis using r(1) by auto
  qed
  then show ?thesis using r by blast
qed

theorem nuclei_per_cell_histogram_sums_to_one_witness:
  "\<exists>xs names.
     nuclei_per_cell_histogram (NDArray [2, 2] [True, False, False, False])
       (NDArray [2, 2] [True, True, False, False]) 2 = Inr (map Num xs, names) \<and>
     length xs = 4 \<and> sum_list xs = 1"
proof -
  let ?nuc = "NDArray [2, 2] [True, False, False, False]"
  let ?cell = "NDArray [2, 2] [True, True, False, False]"
  have 1: "length (ravel ?nuc) = length (ravel ?cell)"
    by simp
  have 2: "\<exists>i<length (ravel ?nuc). ravel ?nuc ! i \<or> ravel ?cell ! i"
    by (rule exI [of _ 0]) simp
  obtain fs names where r: "nuclei_per_cell_histogram ?nuc ?cell 2 = Inr (fs, names)"
      "length fs = 2 + 2" "\<exists>xs. fs = map Num xs \<and> sum_list xs = 1"
    using nuclei_per_cell_histogram_sums_to_one [OF 1, of 2] 2 by blast
  then show ?thesis by auto
qed

section \<open>nuclei_per_cell_histogram: what is counted per cell\<close>

text \<open>
  C7 fails on the code. One cell of two pixels, one of them a nucleus: the cell overlaps one
  nucleus, but its entry in \<^verbatim>\<open>cells\<close> is 2, because the row (0, 1) of the table (a cell pixel
  outside every nucleus) is counted as well; and the rows counted for the label 0 make the
  background a cell with no nucleus. The histogram is (1/2, 0, 1/2, 0) where one cell with
  one nucleus gives (0, 1, 0, 0).
\<close>

theorem nuclei_per_cell_histogram_counts_background:
  "cells_of (match_table (fst (nd_label (NDArray [2, 2] [True, False, False, False])))
                         (fst (nd_label (NDArray [2, 2] [True, True, False, False])))) = [0, 2] \<and>
   nuclei_in_cell (fst (nd_label (NDArray [2, 2] [True, False, False, False])))
                  (fst (nd_label (NDArray [2, 2] [True, True, False, False]))) 1 = 1 \<and>
   nuclei_per_cell_histogram (NDArray [2, 2] [True, False, False, False])
                             (NDArray [2, 2] [True, True, False, False]) 2 =
     Inr ([Num (1 / 2), Num 0, Num (1 / 2), Num 0],
          [''cells-with-0-nuclei'', ''cells-with-1-nuclei'', ''cells-with-2-nuclei'',
           ''cells-with->2-nuclei''])"
  by code_simp

section \<open>default_feature_map: the threshold tuple\<close>

text \<open>
  C1 fails on the code. \<^verbatim>\<open>default_feature_map\<close> hands the whole threshold tuple to every
  channel, where \<^verbatim>\<open>im > threshold\<close> lays it along the columns of the channel: a 2 x 2 image
  of three channels with three thresholds raises ValueError, and on a channel of three
  columns the thresholds are those of the columns, not the channel's own.
\<close>

theorem default_feature_map_threshold_tuple:
  "default_feature_map L (NDArray [2, 2, 3] [1, 1, 1, 1, 1, 1, 1, 1, 1, 1, 1, 1])
     (Some (Tuple [1 / 2, 1 / 2, 1 / 2])) None None None random_seed = Inl ValueError \<and>
   greater_than (NDArray [1, 3] [5, 5, 5]) (Tuple [1, 10, 10]) =
     Inr (NDArray [1, 3] [True, False, False])"
  by code_simp

section \<open>object_features on a channel without objects\<close>

lemma ndim_nd_label [simp]: "ndim (fst (nd_label a)) = ndim a"
  by (simp add: ndim_def)

lemma shape_smoothed [simp]: "shape (smoothed m se erode) = shape m"
  by (simp add: smoothed_def)

lemma ndim_smoothed [simp]: "ndim (smoothed m se erode) = ndim m"
  by (simp add: ndim_def)

lemma se_ndim_selem_of:
  "ndim im = 2 \<or> ndim im = 3 \<Longrightarrow> se_ndim (selem_of im erode) = ndim im"
  by (auto simp: selem_of_def disk_def ball_def)

lemma regionprops_background:
  assumes "ravel lab_im = replicate n 0" and "ndim lab_im = 2 \<or> ndim lab_im = 3"
  shows "regionprops lab_im intensity_image = Inr []"
proof -
  have "fold max (ravel lab_im) 0 = 0"
    unfolding assms(1) by (rule fold_max_replicate_zero)
  then show ?thesis
    using assms(2) by (auto simp: regionprops_def)
qed

lemma normalise_accepted:
  assumes "seed_accepted random_seed"
  shows "\<exists>g. normalise_random_state L random_seed = Inr g \<and> after_call random_seed g = random_seed"
  using assms
  by (cases random_seed)
     (simp_all add: seed_accepted_def normalise_random_state_def RandomState_def after_call_def)

lemma normalise_cases:
  "normalise_random_state L random_seed = Inl ValueError \<or>
   (\<exists>g. normalise_random_state L random_seed = Inr g)"
  by (cases random_seed) (simp_all add: normalise_random_state_def RandomState_def)

lemma object_features_segmentation:
  assumes "ndim im = 2 \<or> ndim im = 3" and "ndim bin_im = ndim im"
  shows "(if ndim im = 2 then Inr (disk erode)
          else if ndim im = 3 then Inr (ball erode) else Inl ValueError) =
         Inr (selem_of im erode)"
    and "(if 0 < erode then binary_opening bin_im (selem_of im erode) else Inr bin_im) =
         Inr (smoothed bin_im (selem_of im erode) erode)"
  using assms se_ndim_selem_of [OF assms(1), of erode]
  by (auto simp: selem_of_def binary_opening_def smoothed_def)

lemma mquantile_no_rows: "mquantile L [] prob k c = unwritten L c k"
  by (simp add: mquantile_def)

text \<open>Without objects and without a sample, the extractor returns: the count 0 and, for
  every property, five entries of unwritten memory.\<close>

lemma object_features_no_sample:
  assumes "ndim im = 2 \<or> ndim im = 3"
    and "ndim bin_im = ndim im"
    and "snd (nd_label (smoothed bin_im (selem_of im erode) erode)) = 0"
    and "seed_accepted random_seed"
  shows "\<exists>names. object_features L bin_im im erode None random_seed =
            Inr ((Num 0 # concat (map (\<lambda>c. map (unwritten L c) [0..<5])
                                     [0..<(if ndim im = 2 then 8 else 7)]),
                  names), random_seed)"
proof -
  let ?b = "smoothed bin_im (selem_of im erode) erode"
  obtain g where g: "normalise_random_state L random_seed = Inr g"
      "after_call random_seed g = random_seed"
    using normalise_accepted [OF assms(4)] by blast
  obtain lab where lab: "nd_label ?b = (lab, 0)"
    using assms(3) by (cases "nd_label ?b") simp
  have "ravel (fst (nd_label ?b)) = replicate (length (ravel ?b)) 0"
    using assms(3) by (rule nd_label_background)
  then have rv: "ravel lab = replicate (length (ravel ?b)) 0"
    using lab by simp
  have "ndim (fst (nd_label ?b)) = ndim im"
    using assms(2) by simp
  then have nd: "ndim lab = 2 \<or> ndim lab = 3"
    using lab assms(1) by simp
  have rp: "regionprops lab (Some im) = Inr []"
    using rv nd by (rule regionprops_background)
  have seg: "(if ndim im = 2 then Inr (disk erode)
              else if ndim im = 3 then Inr (ball erode) else Inl ValueError) =
             Inr (selem_of im erode)"
    "(if 0 < erode then binary_opening bin_im (selem_of im erode) else Inr bin_im) = Inr ?b"
    using object_features_segmentation [OF assms(1,2)] by simp_all
  show ?thesis
    unfolding object_features_def Let_def g(1) seg bindE_Inr lab
    by (simp add: rp g(2) mquantile_no_rows numeral_eq_Suc)
qed

text \<open>Without objects, a sample of one or more cannot be drawn.\<close>

lemma object_features_sample_raises:
  assumes "ndim im = 2 \<or> ndim im = 3"
    and "ndim bin_im = ndim im"
    and "snd (nd_label (smoothed bin_im (selem_of im erode) erode)) = 0"
  shows "object_features L bin_im im erode (Some (Suc k)) random_seed = Inl ValueError"
proof -
  let ?b = "smoothed bin_im (selem_of im erode) erode"
  obtain lab where lab: "nd_label ?b = (lab, 0)"
    using assms(3) by (cases "nd_label ?b") simp
  have seg: "(if ndim im = 2 then Inr (disk erode)
              else if ndim im = 3 then Inr (ball erode) else Inl ValueError) =
             Inr (selem_of im erode)"
    "(if 0 < erode then binary_opening bin_im (selem_of im erode) else Inr bin_im) = Inr ?b"
    using object_features_segmentation [OF assms(1,2)] by simp_all
  from normalise_cases [of L random_seed] show ?thesis
  proof
    assume "normalise_random_state L random_seed = Inl ValueError"
    then show ?thesis
      unfolding object_features_def by simp
  next
    assume "\<exists>g. normalise_random_state L random_seed = Inr g"
    then obtain g where g: "normalise_random_state L random_seed = Inr g"
      by blast
    show ?thesis
      unfolding object_features_def Let_def g seg bindE_Inr lab
      by (simp add: randint_def)
  qed
qed

text \<open>
  C2, as the code has it. Let segmentation find no object in a 2D or 3D channel (after the
  optional opening, the mask has no connected component). With no \<^verbatim>\<open>sample_size\<close> and a
  random source that numpy accepts, \<^verbatim>\<open>object_features\<close> does not raise, and the object count
  is 0; the five quantile entries of each property are no value that the extractor defines,
  neutral or other: they are what the unwritten buffers of the quantile routine hold, and
  may differ from property to property and from run to run. With a \<^verbatim>\<open>sample_size\<close> of one
  or more it raises ValueError, whatever the random source: the indices are asked from the
  empty range \<open>[0, 0)\<close> (or the seed is refused).
\<close>

theorem object_features_without_objects:
  assumes "ndim im = 2 \<or> ndim im = 3"
    and "ndim bin_im = ndim im"
    and "snd (nd_label (smoothed bin_im (selem_of im erode) erode)) = 0"
  shows "(seed_accepted random_seed \<longrightarrow>
          (\<exists>names. object_features L bin_im im erode None random_seed =
             Inr ((Num 0 # concat (map (\<lambda>c. map (unwritten L c) [0..<5])
                                      [0..<(if ndim im = 2 then 8 else 7)]),
                   names), random_seed))) \<and>
         object_features L bin_im im erode (Some (Suc k)) random_seed = Inl ValueError"
  using object_features_no_sample [OF assms] object_features_sample_raises [OF assms]
  by blast

theorem object_features_without_objects_witness:
  "(\<exists>names. object_features lib0
        (NDArray [3, 3] [False, False, False, False, True, False, False, False, False])
        (NDArray [3, 3] [0, 0, 0, 0, 9, 0, 0, 0, 0]) 2 None (Generator 7) =
      Inr ((Num 0 # concat (map (\<lambda>c. map (\<lambda>k. Num (real (10 * c + k))) [0..<5]) [0..<8]),
            names), Generator 7)) \<and>
   object_features lib0
        (NDArray [3, 3] [False, False, False, False, True, False, False, False, False])
        (NDArray [3, 3] [0, 0, 0, 0, 9, 0, 0, 0, 0]) 2 (Some (Suc 2)) (Generator 7) =
      Inl ValueError"
proof -
  let ?b = "NDArray [3, 3] [False, False, False, False, True, False, False, False, False]"
  let ?im = "NDArray [3, 3] [0, 0, 0, 0, 9, 0, 0, 0, 0] :: real ndarray"
  have 1: "ndim ?im = 2 \<or> ndim ?im = 3"
    by (simp add: ndim_def)
  have 2: "ndim ?b = ndim ?im"
    by (simp add: ndim_def)
  have 3: "snd (nd_label (smoothed ?b (selem_of ?im 2) 2)) = 0"
    by code_simp
  have 4: "ndim ?im = 2"
    by (simp add: ndim_def)
  have 5: "seed_accepted (Generator 7)"
    by (simp add: seed_accepted_def)
  have 6: "unwritten lib0 = (\<lambda>c k. Num (real (10 * c + k)))"
    by (simp add: lib0_def)
  show ?thesis
    using object_features_without_objects [OF 1 2 3, of "Generator 7" lib0 2] 5
    by (simp only: 4 6 if_True simp_thms)
qed

text \<open>The claim as stated fails: on an all-background channel a supplied \<^verbatim>\<open>sample_size\<close>
  makes both extractors raise.\<close>

theorem object_features_without_objects_counterexample:
  "object_features lib0
     (NDArray [3, 3] [False, False, False, False, False, False, False, False, False])
     (NDArray [3, 3] [0, 0, 0, 0, 0, 0, 0, 0, 0]) 2 (Some 1) (Seed 0) = Inl ValueError \<and>
   intensity_object_features lib0 (NDArray [3, 3] [0, 0, 0, 0, 0, 0, 0, 0, 0])
     (Some (Scalar (1 / 2))) 51 (Some 1) (Seed 0) = Inl ValueError"
  by code_simp

section \<open>nearest_neighbors with too few objects\<close>

lemma length_objects:
  "length (filter (\<lambda>l. l \<in> set xs) [1..<Suc (fold max xs 0)]) =
   length (remdups (filter (\<lambda>l. 0 < l) xs))"
proof -
  let ?a = "filter (\<lambda>l. l \<in> set xs) [1..<Suc (fold max xs 0)]"
  let ?b = "remdups (filter (\<lambda>l. 0 < l) xs)"
  have "l < Suc (fold max xs 0)" if "l \<in> set xs" for l
    using fold_max_ge_mem [OF that, of 0] by simp
  then have "set ?a = set ?b"
    by (auto simp del: upt_Suc)
  moreover have "distinct ?a" and "distinct ?b"
    by (simp_all del: upt_Suc)
  ultimately show ?thesis
    by (metis distinct_card)
qed

lemma regionprops_length:
  assumes "ndim lab_im = 2 \<or> ndim lab_im = 3"
  shows "\<exists>objects. regionprops lab_im None = Inr objects \<and> length objects = n_objects lab_im"
proof -
  have "regionprops lab_im None =
        Inr (filter (\<lambda>l. l \<in> set (ravel lab_im)) [1..<Suc (fold max (ravel lab_im) 0)])"
    using assms by (auto simp: regionprops_def Let_def simp del: upt_Suc One_nat_def)
  then show ?thesis
    unfolding n_objects_def using length_objects [of "ravel lab_im"] by blast
qed

lemma regionprops_ndim:
  "\<not> (ndim lab_im = 2 \<or> ndim lab_im = 3) \<Longrightarrow> regionprops lab_im im = Inl TypeError"
  by (simp add: regionprops_def)

lemma fit_kneighbors_few:
  "int (length pts) < k \<Longrightarrow> fit_kneighbors pts k = Inl ValueError"
  by (simp add: fit_kneighbors_def)

lemma nearest_neighbors_few:
  assumes "int (n_objects (labels_of lab_im)) < n + 1"
  shows "(\<exists>e. nearest_neighbors L lab_im n quantiles = Inl e) \<and>
         (ndim (labels_of lab_im) = 2 \<or> ndim (labels_of lab_im) = 3 \<longrightarrow>
          nearest_neighbors L lab_im n quantiles = Inl ValueError)"
proof (cases "ndim (labels_of lab_im) = 2 \<or> ndim (labels_of lab_im) = 3")
  case False
  then have "nearest_neighbors L lab_im n quantiles = Inl TypeError"
    unfolding nearest_neighbors_def Let_def labels_of_def [symmetric]
    by (simp add: regionprops_ndim)
  then show ?thesis using False by simp
next
  case True
  obtain objects where o: "regionprops (labels_of lab_im) None = Inr objects"
      "length objects = n_objects (labels_of lab_im)"
    using regionprops_length [OF True] by blast
  have "fit_kneighbors (map (centroid (labels_of lab_im)) objects) (n + 1) = Inl ValueError"
    using assms o(2) by (intro fit_kneighbors_few) simp
  then have "nearest_neighbors L lab_im n quantiles = Inl ValueError"
    unfolding nearest_neighbors_def Let_def labels_of_def [symmetric]
    by (simp add: o(1))
  then show ?thesis by simp
qed

text \<open>
  C3, as the code has it. On a label image (or a mask, labelled first) with fewer than
  \<open>n + 1\<close> objects, \<^verbatim>\<open>nearest_neighbors\<close> returns no feature vector: it raises, and for a 2D
  or 3D image the exception is the ValueError of the neighbour search (no point to fit, or
  more neighbours asked for than there are points). This differs from what the
  segmentation extractor does without objects when it takes no sample: that call returns a
  vector. No exception of its own marks the condition.
\<close>

theorem nearest_neighbors_insufficient_objects:
  assumes "int (n_objects (labels_of lab_im)) < n + 1"
  shows "(\<exists>e. nearest_neighbors L lab_im n quantiles = Inl e) \<and>
         (ndim (labels_of lab_im) = 2 \<or> ndim (labels_of lab_im) = 3 \<longrightarrow>
          nearest_neighbors L lab_im n quantiles = Inl ValueError) \<and>
         ((ndim im = 2 \<or> ndim im = 3) \<and> ndim bin_im = ndim im \<and>
          snd (nd_label (smoothed bin_im (selem_of im erode) erode)) = 0 \<and>
          seed_accepted random_seed \<longrightarrow>
          (\<exists>r. object_features L bin_im im erode None random_seed = Inr r))"
proof -
  note a = nearest_neighbors_few [OF assms, of L quantiles]
  have b: "\<exists>r. object_features L bin_im im erode None random_seed = Inr r"
    if "ndim im = 2 \<or> ndim im = 3" and "ndim bin_im = ndim im"
      and "snd (nd_label (smoothed bin_im (selem_of im erode) erode)) = 0"
      and "seed_accepted random_seed"
    using object_features_no_sample [OF that, of L] by blast
  show ?thesis using a b by blast
qed

theorem nearest_neighbors_insufficient_objects_witness:
  "nearest_neighbors lib0 (Labels (NDArray [3, 3] [1, 0, 2, 0, 0, 0, 0, 0, 0])) 3
     [5 / 100, 25 / 100, 5 / 10, 75 / 100, 95 / 100] = Inl ValueError \<and>
   nearest_neighbors lib0 (Mask (NDArray [3, 3] [True, False, True, False, False, False,
     True, False, False])) 3 [5 / 100, 25 / 100, 5 / 10, 75 / 100, 95 / 100] = Inl ValueError \<and>
   (\<exists>r. object_features lib0
          (NDArray [3, 3] [False, False, False, False, False, False, False, False, False])
          (NDArray [3, 3] [0, 0, 0, 0, 0, 0, 0, 0, 0]) 2 None (Seed 0) = Inr r)"
proof -
  let ?l = "Labels (NDArray [3, 3] [1, 0, 2, 0, 0, 0, 0, 0, 0])"
  let ?m = "Mask (NDArray [3, 3] [True, False, True, False, False, False, True, False, False])"
  let ?b = "NDArray [3, 3] [False, False, False, False, False, False, False, False, False]"
  let ?im = "NDArray [3, 3] [0, 0, 0, 0, 0, 0, 0, 0, 0] :: real ndarray"
  have 1: "int (n_objects (labels_of ?l)) < 3 + 1"
    by code_simp
  have 2: "ndim (labels_of ?l) = 2 \<or> ndim (labels_of ?l) = 3"
    by code_simp
  have 3: "int (n_objects (labels_of ?m)) < 3 + 1"
    by code_simp
  have 4: "ndim (labels_of ?m) = 2 \<or> ndim (labels_of ?m) = 3"
    by code_simp
  have 5: "(ndim ?im = 2 \<or> ndim ?im = 3) \<and> ndim ?b = ndim ?im \<and>
           snd (nd_label (smoothed ?b (selem_of ?im 2) 2)) = 0 \<and> seed_accepted (Seed 0)"
    by code_simp
  show ?thesis
    using nearest_neighbors_insufficient_objects [OF 1, of lib0 _ ?im ?b 2 "Seed 0"] 2 5
      nearest_neighbors_insufficient_objects [OF 3, of lib0] 4
    by blast
qed

text \<open>The claim as stated fails: too few objects for the neighbours and no object for a
  sampling segmentation extractor are signalled alike, by the same ValueError.\<close>

theorem nearest_neighbors_insufficient_objects_counterexample:
  "nearest_neighbors lib0 (Labels (NDArray [3, 3] [1, 0, 2, 0, 0, 0, 0, 0, 0])) 3
     [5 / 100, 25 / 100, 5 / 10, 75 / 100, 95 / 100] = Inl ValueError \<and>
   object_features lib0
     (NDArray [3, 3] [False, False, False, False, False, False, False, False, False])
     (NDArray [3, 3] [0, 0, 0, 0, 0, 0, 0, 0, 0]) 2 (Some 3) (Seed 0) = Inl ValueError"
proof
  let ?l = "Labels (NDArray [3, 3] [1, 0, 2, 0, 0, 0, 0, 0, 0])"
  have 1: "int (n_objects (labels_of ?l)) < 3 + 1"
    by code_simp
  have 2: "ndim (labels_of ?l) = 2 \<or> ndim (labels_of ?l) = 3"
    by code_simp
  show "nearest_neighbors lib0 ?l 3 [5 / 100, 25 / 100, 5 / 10, 75 / 100, 95 / 100] =
        Inl ValueError"
    using nearest_neighbors_few [OF 1, of lib0] 2 by blast
  show "object_features lib0
     (NDArray [3, 3] [False, False, False, False, False, False, False, False, False])
     (NDArray [3, 3] [0, 0, 0, 0, 0, 0, 0, 0, 0]) 2 (Some 3) (Seed 0) = Inl ValueError"
    by code_simp
qed

section \<open>Feature vectors and name lists have the same length\<close>

lemma bindE_eq_Inr:
  "(bindE r f = Inr y) = (\<exists>x. r = Inr x \<and> f x = Inr y)"
  by (cases r) simp_all

lemma mapE_length: "mapE f xs = Inr ys \<Longrightarrow> length ys = length xs"
  by (induction xs arbitrary: ys) (auto simp: bindE_eq_Inr)

lemma length_concat_rows:
  "length (concat (map (\<lambda>c. map (g c) qs) cs)) = length cs * length qs"
  by (induction cs) simp_all

lemma paired_shape:
  "length (x # concat (map (\<lambda>c. map (g c) [0..<length qs]) [0..<length ps])) =
   length (y # map h (List.product ps qs))"
  by (simp add: length_concat_rows)

lemma object_features_paired:
  assumes "object_features L bin_im im erode sample_size random_seed = Inr ((fs, names), s)"
  shows "length fs = length names"
  using assms unfolding object_features_def Let_def bindE_eq_Inr case_prod_beta
  apply (elim exE conjE)
  apply (simp only: sum.inject prod.inject)
  apply (elim conjE)
  apply hypsubst
  apply (rule paired_shape)
  done

lemma intensity_object_features_paired:
  assumes "intensity_object_features L im threshold r sample_size random_seed =
           Inr ((fs, names), s)"
  shows "length fs = length names"
proof (cases threshold)
  case (Some t)
  then show ?thesis
    using assms object_features_paired
    by (auto simp: intensity_object_features_def bindE_eq_Inr)
next
  case None
  then obtain f1 names1 s1 where
    1: "object_features L (NDArray (shape im) (map (\<lambda>v. threshold_otsu L im < v) (ravel im)))
          im 2 sample_size random_seed = Inr ((f1, names1), s1)"
    using assms by (auto simp: intensity_object_features_def Let_def bindE_eq_Inr)
  have l1: "length f1 = length names1"
    using 1 by (rule object_features_paired)
  show ?thesis
  proof (cases "ndim im = 2")
    case False
    then show ?thesis
      using assms None 1 l1 by (auto simp: intensity_object_features_def Let_def)
  next
    case True
    then obtain f2 names2 where
      2: "object_features L
            (NDArray (shape im)
               (map (\<lambda>(i, v). threshold_local L im r i < v)
                  (zip [0..<length (ravel im)] (ravel im))))
            im 2 sample_size s1 = Inr ((f2, names2), s)"
      and fs: "fs = f1 @ f2"
      and names: "names = map (\<lambda>name. ''otsu-threshold-'' @ name) names1 @
                         map (\<lambda>name. ''adaptive-threshold-'' @ name) names2"
      using assms None 1
      by (auto simp: intensity_object_features_def Let_def bindE_eq_Inr)
    have "length f2 = length names2"
      using 2 by (rule object_features_paired)
    then show ?thesis using l1 fs names by simp
  qed
qed

lemma fraction_positive_paired:
  assumes "fraction_positive bin_im positive_im erode overlap_thresh bin_name positive_name =
           Inr (fs, names)"
  shows "length fs = length names"
  using assms unfolding fraction_positive_def Let_def bindE_eq_Inr case_prod_beta
  by auto

lemma nuclei_per_cell_histogram_paired:
  assumes "nuclei_per_cell_histogram nuc_im cell_im max_value = Inr (fs, names)"
  shows "length fs = length names"
  using assms
  by (auto simp: nuclei_per_cell_histogram_def Let_def length_bincount split: if_splits)

lemma feature_loop_paired:
  assumes "feature_loop L threshold sample_size chans random_seed all_fs all_names =
           Inr ((all_fs', all_names'), s)"
    and "length (concat all_fs) = length all_names"
  shows "length (concat all_fs') = length all_names'"
  using assms
proof (induction chans arbitrary: random_seed all_fs all_names)
  case Nil
  then show ?case by simp
next
  case (Cons ch chans)
  obtain im prefix where ch: "ch = (im, prefix)"
    by (cases ch)
  obtain fs names s1 where
    1: "intensity_object_features L im threshold 51 sample_size random_seed =
          Inr ((fs, names), s1)"
    and 2: "feature_loop L threshold sample_size chans s1 (all_fs @ [fs])
              (all_names @ map (\<lambda>name. prefix @ ''-'' @ name) names) =
            Inr ((all_fs', all_names'), s)"
    using Cons.prems(1) unfolding ch by (auto simp: bindE_eq_Inr Let_def)
  have "length fs = length names"
    using 1 by (rule intensity_object_features_paired)
  then have "length (concat (all_fs @ [fs])) =
             length (all_names @ map (\<lambda>name. prefix @ ''-'' @ name) names)"
    using Cons.prems(2) by simp
  then show ?case
    using Cons.IH [OF 2] by simp
qed

lemma default_feature_map_paired:
  assumes "default_feature_map L img threshold channels channel_names sample_size random_seed =
           Inr ((fs, names), s)"
  shows "length fs = length names"
proof -
  obtain chans all_fs where
    1: "feature_loop L threshold sample_size chans random_seed [] [] =
          Inr ((all_fs, names), s)"
    and 2: "np_concatenate all_fs = Inr fs"
    using assms unfolding default_feature_map_def Let_def bindE_eq_Inr case_prod_beta
    by (elim exE conjE) (auto simp: prod_eq_iff)
  have "length (concat all_fs) = length names"
    using 1 by (rule feature_loop_paired) simp
  moreover have "fs = concat all_fs"
    using 2 by (auto simp: np_concatenate_def split: if_splits)
  ultimately show ?thesis by simp
qed

lemma length_column: "column m j = Inr c \<Longrightarrow> length c = length m"
  by (auto simp: column_def split: if_splits)

lemma ncols_uniform: "rows \<noteq> [] \<Longrightarrow> \<forall>r\<in>set rows. length r = k \<Longrightarrow> ncols rows = k"
  by (cases rows) (simp_all add: ncols_def)

lemma length_triplet_angles:
  assumes "triplet_angles points indices = Inr angles"
  shows "length angles = length indices"
proof -
  obtain i0 i1 i2 roots leaf1 leaf2 where
    c: "column indices 0 = Inr i0" "column indices 1 = Inr i1" "column indices 2 = Inr i2"
    and m: "mapE (nth_checked points) i0 = Inr roots" "mapE (nth_checked points) i1 = Inr leaf1"
      "mapE (nth_checked points) i2 = Inr leaf2"
    and a: "angles = map arccos (map (\<lambda>c. if c < - 1 then - 1 else c)
              (map (\<lambda>c. if 1 < c then 1 else c)
                 (map2 (\<lambda>a b. sum_list (map2 (*) a b))
                    (normalize_vectors (map2 (map2 (-)) leaf1 roots))
                    (normalize_vectors (map2 (map2 (-)) leaf2 roots)))))"
    using assms unfolding triplet_angles_def Let_def bindE_eq_Inr by auto
  have "length roots = length indices" "length leaf1 = length indices"
    "length leaf2 = length indices"
    using c m by (auto dest!: mapE_length length_column)
  then show ?thesis
    unfolding a by (simp add: normalize_vectors_def)
qed

lemma kneighbors_shape:
  assumes "k \<le> length pts" and "kneighbors pts k = (distances, indices)"
  shows "length distances = length pts" and "length indices = length pts"
    and "\<forall>r\<in>set distances. length r = k" and "\<forall>r\<in>set indices. length r = k"
    and "\<forall>r\<in>set indices. \<forall>j\<in>set r. j < length pts"
proof -
  let ?ix = "map (\<lambda>p. take k (sort_key (\<lambda>j. euclid p (pts ! j)) [0..<length pts])) pts"
  have i: "indices = ?ix" and d: "distances = map2 (\<lambda>p js. map (\<lambda>j. euclid p (pts ! j)) js) pts ?ix"
    using assms(2) by (auto simp: kneighbors_def Let_def)
  show "length indices = length pts" by (simp add: i)
  show "length distances = length pts" by (simp add: d)
  show ri: "\<forall>r\<in>set indices. length r = k"
    using assms(1) by (auto simp: i)
  show "\<forall>r\<in>set distances. length r = k"
    unfolding d using ri unfolding i by (auto elim!: in_set_zipE)
  show "\<forall>r\<in>set indices. \<forall>j\<in>set r. j < length pts"
  proof (intro ballI)
    fix r j
    assume "r \<in> set indices" and "j \<in> set r"
    then obtain p where "j \<in> set (take k (sort_key (\<lambda>j. euclid p (pts ! j)) [0..<length pts]))"
      by (auto simp: i)
    then have "j \<in> set (sort_key (\<lambda>j. euclid p (pts ! j)) [0..<length pts])"
      by (rule in_set_takeD)
    then show "j < length pts" by simp
  qed
qed

lemma length_concat_quantiles:
  "length (concat (map (\<lambda>q. map (g q) cs) qs)) = length qs * length cs"
  by (induction qs) simp_all

lemma ncols_features:
  assumes "\<forall>r\<in>set distances. length r = k" and "length angles = length distances"
    and "distances \<noteq> []"
  shows "ncols (map (\<lambda>p. [sin (fst p), cos (fst p)] @ snd p)
                 (zip (map g angles)
                    (map (\<lambda>p. (snd p)[0 := fst p]) (zip (map g angles) distances)))) = 2 + k"
proof (rule ncols_uniform)
  show "map (\<lambda>p. [sin (fst p), cos (fst p)] @ snd p)
          (zip (map g angles)
             (map (\<lambda>p. (snd p)[0 := fst p]) (zip (map g angles) distances))) \<noteq> []"
    using assms(2,3) by (cases angles; cases distances) simp_all
  show "\<forall>r\<in>set (map (\<lambda>p. [sin (fst p), cos (fst p)] @ snd p)
          (zip (map g angles)
             (map (\<lambda>p. (snd p)[0 := fst p]) (zip (map g angles) distances)))).
          length r = 2 + k"
    using assms(1) by (auto elim!: in_set_zipE)
qed

lemma fit_kneighbors_shape:
  assumes "fit_kneighbors pts k = Inr dk"
  shows "0 < k" and "nat k \<le> length pts" and "pts \<noteq> []"
    and "length (fst dk) = length pts" and "length (snd dk) = length pts"
    and "\<forall>r\<in>set (fst dk). length r = nat k" and "\<forall>r\<in>set (snd dk). length r = nat k"
    and "\<forall>r\<in>set (snd dk). \<forall>j\<in>set r. j < length pts"
proof -
  show k: "0 < k" "nat k \<le> length pts" "pts \<noteq> []"
    using assms by (auto simp: fit_kneighbors_def split: if_splits)
  have "kneighbors pts (nat k) = (fst dk, snd dk)"
    using assms by (auto simp: fit_kneighbors_def split: if_splits)
  note sh = kneighbors_shape [OF k(2) this]
  show "length (fst dk) = length pts" "length (snd dk) = length pts"
    "\<forall>r\<in>set (fst dk). length r = nat k" "\<forall>r\<in>set (snd dk). length r = nat k"
    "\<forall>r\<in>set (snd dk). \<forall>j\<in>set r. j < length pts"
    using sh by simp_all
qed

lemma neighbor_shape:
  assumes "ncols features = 2 + nat (n + 1)" and "0 < n + 1"
  shows "length (concat (map (\<lambda>k. map (g k) [0..<ncols features]) [0..<length quantiles])) =
         length (map h (List.product ([c1, c2, c3] @ map d [1..n]) quantiles))"
proof -
  have "length (concat (map (\<lambda>k. map (g k) [0..<ncols features]) [0..<length quantiles])) =
        length quantiles * ncols features"
    by (simp add: length_concat_quantiles)
  moreover have "length (map h (List.product ([c1, c2, c3] @ map d [1..n]) quantiles)) =
        (3 + nat n) * length quantiles"
    by (simp add: algebra_simps)
  moreover have "ncols features = 3 + nat n"
    using assms by (simp add: nat_add_distrib)
  ultimately show ?thesis
    by (simp only: mult.commute)
qed

lemma nearest_neighbors_paired:
  assumes "nearest_neighbors L lab_im n quantiles = Inr (fs, names)"
  shows "length fs = length names"
  using assms unfolding nearest_neighbors_def Let_def bindE_eq_Inr case_prod_beta
  apply (elim exE conjE)
  apply (simp only: sum.inject prod.inject)
  apply (elim conjE)
  apply hypsubst
  subgoal for objects dk angles
    apply (rule neighbor_shape)
     apply (rule ncols_features)
       apply (erule fit_kneighbors_shape(6))
      apply (simp add: length_triplet_angles fit_kneighbors_shape(4,5))
     apply (frule fit_kneighbors_shape(3), frule fit_kneighbors_shape(4), force)
    apply (erule fit_kneighbors_shape(1))
    done
  done

lemma mapE_total:
  "\<forall>x\<in>set xs. \<exists>y. f x = Inr y \<Longrightarrow> \<exists>ys. mapE f xs = Inr ys"
  by (induction xs) (auto simp: bindE_eq_Inr)

lemma column_total:
  assumes "m \<noteq> []" and "\<forall>r\<in>set m. length r = k" and "j < k"
  shows "column m j = Inr (map (\<lambda>row. row ! j) m)"
  using assms ncols_uniform [OF assms(1,2)] by (simp add: column_def)

lemma take_rows_total:
  assumes "\<forall>r\<in>set m. length r = k \<and> (\<forall>i\<in>set r. i < length points)" and "j < k"
  shows "\<exists>ys. mapE (nth_checked points) (map (\<lambda>row. row ! j) m) = Inr ys"
proof (rule mapE_total, rule ballI)
  fix x
  assume "x \<in> set (map (\<lambda>row. row ! j) m)"
  then obtain r where r: "r \<in> set m" "x = r ! j"
    by auto
  then have "x \<in> set r"
    using assms by auto
  then have "x < length points"
    using assms(1) r(1) by blast
  then show "\<exists>y. nth_checked points x = Inr y"
    by (simp add: nth_checked_def)
qed

lemma triplet_angles_total:
  assumes "indices \<noteq> []"
    and "\<forall>r\<in>set indices. length r = 3 \<and> (\<forall>i\<in>set r. i < length points)"
  shows "\<exists>angles. triplet_angles points indices = Inr angles"
proof -
  have len: "\<forall>r\<in>set indices. length r = 3"
    using assms(2) by blast
  have c: "column indices 0 = Inr (map (\<lambda>row. row ! 0) indices)"
    "column indices 1 = Inr (map (\<lambda>row. row ! 1) indices)"
    "column indices 2 = Inr (map (\<lambda>row. row ! 2) indices)"
    using column_total [OF assms(1) len] by simp_all
  obtain roots leaf1 leaf2 where
    "mapE (nth_checked points) (map (\<lambda>row. row ! 0) indices) = Inr roots"
    "mapE (nth_checked points) (map (\<lambda>row. row ! 1) indices) = Inr leaf1"
    "mapE (nth_checked points) (map (\<lambda>row. row ! 2) indices) = Inr leaf2"
    using take_rows_total [OF assms(2), of 0] take_rows_total [OF assms(2), of 1]
      take_rows_total [OF assms(2), of 2]
    by auto
  then show ?thesis
    unfolding triplet_angles_def Let_def c bindE_Inr by simp
qed

lemma nearest_neighbors_total:
  assumes "ndim (labels_of lab_im) = 2 \<or> ndim (labels_of lab_im) = 3"
    and "2 \<le> n" and "n + 1 \<le> int (n_objects (labels_of lab_im))"
  shows "\<exists>fs names. nearest_neighbors L lab_im n quantiles = Inr (fs, names)"
proof -
  let ?lab = "labels_of lab_im"
  obtain objects where o: "regionprops ?lab None = Inr objects"
      "length objects = n_objects ?lab"
    using regionprops_length [OF assms(1)] by blast
  let ?pts = "map (centroid ?lab) objects"
  have "objects \<noteq> []" and "\<not> n + 1 \<le> 0" and "\<not> int (length ?pts) < n + 1"
    using assms(2,3) o(2) by auto
  then have f: "fit_kneighbors ?pts (n + 1) = Inr (kneighbors ?pts (nat (n + 1)))"
    by (simp add: fit_kneighbors_def)
  define dk where "dk = kneighbors ?pts (nat (n + 1))"
  note f = f [folded dk_def]
  note sh = fit_kneighbors_shape [OF f]
  have "map (take 3) (snd dk) \<noteq> []"
    using sh(3,5) by auto
  moreover have "\<forall>r\<in>set (map (take 3) (snd dk)).
                   length r = 3 \<and> (\<forall>i\<in>set r. i < length ?pts)"
  proof
    fix r
    assume "r \<in> set (map (take 3) (snd dk))"
    then obtain r' where r': "r' \<in> set (snd dk)" "r = take 3 r'"
      by auto
    have "length r' = nat (n + 1)"
      using sh(7) r'(1) by blast
    then have "length r = 3"
      using r'(2) assms(2) by simp
    moreover have "\<forall>i\<in>set r. i < length ?pts"
      using sh(8) r' by (auto dest: in_set_takeD)
    ultimately show "length r = 3 \<and> (\<forall>i\<in>set r. i < length ?pts)"
      by blast
  qed
  ultimately obtain angles where
    t: "triplet_angles ?pts (map (take 3) (snd dk)) = Inr angles"
    using triplet_angles_total by blast
  show ?thesis
    unfolding nearest_neighbors_def Let_def labels_of_def [symmetric] o(1) bindE_Inr f
      case_prod_beta t
    by blast
qed

text \<open>
  C6. Whenever an extractor returns, its feature vector and its name list have the same
  length: \<^verbatim>\<open>object_features\<close>, \<^verbatim>\<open>intensity_object_features\<close>, \<^verbatim>\<open>nearest_neighbors\<close>,
  \<^verbatim>\<open>fraction_positive\<close>, \<^verbatim>\<open>nuclei_per_cell_histogram\<close> and \<^verbatim>\<open>default_feature_map\<close>, for all
  inputs. The loop of the orchestrator keeps the equality between the concatenation of the
  vectors collected so far and the names collected so far.
\<close>

theorem feature_vectors_and_names_paired:
  "(object_features L bin_im im erode sample_size random_seed = Inr ((fs1, names1), s1) \<longrightarrow>
      length fs1 = length names1) \<and>
   (intensity_object_features L im2 threshold2 radius sample_size2 random_seed2 =
      Inr ((fs2, names2), s2) \<longrightarrow> length fs2 = length names2) \<and>
   (nearest_neighbors L lab_im n quantiles = Inr (fs3, names3) \<longrightarrow>
      length fs3 = length names3) \<and>
   (fraction_positive ref_im positive_im erode4 overlap_thresh bin_name positive_name =
      Inr (fs4, names4) \<longrightarrow> length fs4 = length names4) \<and>
   (nuclei_per_cell_histogram nuc_im cell_im max_value = Inr (fs5, names5) \<longrightarrow>
      length fs5 = length names5) \<and>
   (default_feature_map L img threshold6 channels channel_names sample_size6 random_seed6 =
      Inr ((fs6, names6), s6) \<longrightarrow> length fs6 = length names6) \<and>
   (feature_loop L threshold7 sample_size7 chans random_seed7 all_fs all_names =
      Inr ((all_fs', all_names'), s7) \<longrightarrow>
    length (concat all_fs) = length all_names \<longrightarrow>
    length (concat all_fs') = length all_names')"
proof (intro conjI impI)
  assume "object_features L bin_im im erode sample_size random_seed = Inr ((fs1, names1), s1)"
  then show "length fs1 = length names1"
    by (rule object_features_paired)
next
  assume "intensity_object_features L im2 threshold2 radius sample_size2 random_seed2 =
          Inr ((fs2, names2), s2)"
  then show "length fs2 = length names2"
    by (rule intensity_object_features_paired)
next
  assume "nearest_neighbors L lab_im n quantiles = Inr (fs3, names3)"
  then show "length fs3 = length names3"
    by (rule nearest_neighbors_paired)
next
  assume "fraction_positive ref_im positive_im erode4 overlap_thresh bin_name positive_name =
          Inr (fs4, names4)"
  then show "length fs4 = length names4"
    by (rule fraction_positive_paired)
next
  assume "nuclei_per_cell_histogram nuc_im cell_im max_value = Inr (fs5, names5)"
  then show "length fs5 = length names5"
    by (rule nuclei_per_cell_histogram_paired)
next
  assume "default_feature_map L img threshold6 channels channel_names sample_size6
            random_seed6 = Inr ((fs6, names6), s6)"
  then show "length fs6 = length names6"
    by (rule default_feature_map_paired)
next
  assume "feature_loop L threshold7 sample_size7 chans random_seed7 all_fs all_names =
          Inr ((all_fs', all_names'), s7)"
    and "length (concat all_fs) = length all_names"
  then show "length (concat all_fs') = length all_names'"
    by (rule feature_loop_paired)
qed

lemma not_isl_obtain:
  assumes "\<not> isl r"
  obtains x where "r = Inr x"
  using assms by (cases r) simp_all

theorem feature_vectors_and_names_paired_witness:
  "(\<exists>fs names s.
      object_features lib0 (NDArray [3, 3] [True, False, True, False, False, False, True, True, True])
        (NDArray [3, 3] [4, 0, 5, 0, 0, 0, 6, 7, 8]) 0 (Some 2) (Seed 1) = Inr ((fs, names), s) \<and>
      length fs = length names) \<and>
   (\<exists>fs names s.
      intensity_object_features lib0 (NDArray [3, 3] [4, 0, 5, 0, 0, 0, 6, 7, 8]) None 51 None
        (Seed 1) = Inr ((fs, names), s) \<and>
      length fs = length names) \<and>
   (\<exists>fs names.
      nearest_neighbors lib0 (Labels (NDArray [3, 3] [1, 0, 2, 0, 0, 0, 3, 0, 0])) 2
        [5 / 100, 5 / 10, 95 / 100] = Inr (fs, names) \<and>
      length fs = length names) \<and>
   (\<exists>fs names.
      fraction_positive (NDArray [3, 3] [True, True, False, False, False, False, True, True, True])
        (NDArray [3, 3] [True, False, False, False, True, True, False, True, True])
        0 (6 / 10) ''nuclei'' ''tf'' = Inr (fs, names) \<and>
      length fs = length names) \<and>
   (\<exists>fs names.
      nuclei_per_cell_histogram (NDArray [2, 2] [True, False, False, True])
        (NDArray [2, 2] [True, True, False, True]) 10 = Inr (fs, names) \<and>
      length fs = length names) \<and>
   (\<exists>fs names s.
      default_feature_map lib0 (NDArray [2, 2, 2] [1, 2, 3, 4, 5, 6, 7, 8]) None None None None
        (Seed 1) = Inr ((fs, names), s) \<and>
      length fs = length names) \<and>
   (\<exists>all_fs all_names s.
      feature_loop lib0 None None [(NDArray [2, 2] [1, 3, 5, 7], ''chan0'')] (Seed 1) [] [] =
        Inr ((all_fs, all_names), s) \<and>
      length (concat all_fs) = length all_names)"
proof -
  note th = feature_vectors_and_names_paired
  have 1: "\<not> isl (object_features lib0
        (NDArray [3, 3] [True, False, True, False, False, False, True, True, True])
        (NDArray [3, 3] [4, 0, 5, 0, 0, 0, 6, 7, 8]) 0 (Some 2) (Seed 1))"
    by code_simp
  have 2: "\<not> isl (intensity_object_features lib0 (NDArray [3, 3] [4, 0, 5, 0, 0, 0, 6, 7, 8])
        None 51 None (Seed 1))"
    by code_simp
  have 3: "\<exists>fs names. nearest_neighbors lib0
        (Labels (NDArray [3, 3] [1, 0, 2, 0, 0, 0, 3, 0, 0])) 2 [5 / 100, 5 / 10, 95 / 100] =
        Inr (fs, names)"
  proof (rule nearest_neighbors_total)
    show "ndim (labels_of (Labels (NDArray [3, 3] [1, 0, 2, 0, 0, 0, 3, 0, 0]))) = 2 \<or>
          ndim (labels_of (Labels (NDArray [3, 3] [1, 0, 2, 0, 0, 0, 3, 0, 0]))) = 3"
      by code_simp
    show "(2::int) \<le> 2"
      by simp
    show "2 + 1 \<le> int (n_objects (labels_of (Labels (NDArray [3, 3] [1, 0, 2, 0, 0, 0, 3, 0, 0]))))"
      by code_simp
  qed
  have 4: "\<not> isl (fraction_positive
        (NDArray [3, 3] [True, True, False, False, False, False, True, True, True])
        (NDArray [3, 3] [True, False, False, False, True, True, False, True, True])
        0 (6 / 10) ''nuclei'' ''tf'')"
    by code_simp
  have 5: "\<not> isl (nuclei_per_cell_histogram (NDArray [2, 2] [True, False, False, True])
        (NDArray [2, 2] [True, True, False, True]) 10)"
    by code_simp
  have 6: "\<not> isl (default_feature_map lib0 (NDArray [2, 2, 2] [1, 2, 3, 4, 5, 6, 7, 8])
        None None None None (Seed 1))"
    by code_simp
  have 7: "\<not> isl (feature_loop lib0 None None [(NDArray [2, 2] [1, 3, 5, 7], ''chan0'')]
        (Seed 1) [] [])"
    by code_simp
  show ?thesis
  proof (intro conjI)
    from 1 obtain x where "object_features lib0
        (NDArray [3, 3] [True, False, True, False, False, False, True, True, True])
        (NDArray [3, 3] [4, 0, 5, 0, 0, 0, 6, 7, 8]) 0 (Some 2) (Seed 1) = Inr x"
      by (rule not_isl_obtain)
    then show "\<exists>fs names s.
      object_features lib0 (NDArray [3, 3] [True, False, True, False, False, False, True, True, True])
        (NDArray [3, 3] [4, 0, 5, 0, 0, 0, 6, 7, 8]) 0 (Some 2) (Seed 1) = Inr ((fs, names), s) \<and>
      length fs = length names"
      using th [THEN conjunct1] by (cases x) (metis prod.collapse)
  next
    from 2 obtain x where "intensity_object_features lib0
        (NDArray [3, 3] [4, 0, 5, 0, 0, 0, 6, 7, 8]) None 51 None (Seed 1) = Inr x"
      by (rule not_isl_obtain)
    then show "\<exists>fs names s.
      intensity_object_features lib0 (NDArray [3, 3] [4, 0, 5, 0, 0, 0, 6, 7, 8]) None 51 None
        (Seed 1) = Inr ((fs, names), s) \<and>
      length fs = length names"
      using th [THEN conjunct2, THEN conjunct1] by (cases x) (metis prod.collapse)
  next
    from 3 show "\<exists>fs names.
      nearest_neighbors lib0 (Labels (NDArray [3, 3] [1, 0, 2, 0, 0, 0, 3, 0, 0])) 2
        [5 / 100, 5 / 10, 95 / 100] = Inr (fs, names) \<and>
      length fs = length names"
      using th [THEN conjunct2, THEN conjunct2, THEN conjunct1] by metis
  next
    from 4 obtain x where "fraction_positive
        (NDArray [3, 3] [True, True, False, False, False, False, True, True, True])
        (NDArray [3, 3] [True, False, False, False, True, True, False, True, True])
        0 (6 / 10) ''nuclei'' ''tf'' = Inr x"
      by (rule not_isl_obtain)
    then show "\<exists>fs names.
      fraction_positive (NDArray [3, 3] [True, True, False, False, False, False, True, True, True])
        (NDArray [3, 3] [True, False, False, False, True, True, False, True, True])
        0 (6 / 10) ''nuclei'' ''tf'' = Inr (fs, names) \<and>
      length fs = length names"
      using th [THEN conjunct2, THEN conjunct2, THEN conjunct2, THEN conjunct1]
      by (cases x) metis
  next
    from 5 obtain x where "nuclei_per_cell_histogram (NDArray [2, 2] [True, False, False, True])
        (NDArray [2, 2] [True, True, False, True]) 10 = Inr x"
      by (rule not_isl_obtain)
    then show "\<exists>fs names.
      nuclei_per_cell_histogram (NDArray [2, 2] [True, False, False, True])
        (NDArray [2, 2] [True, True, False, True]) 10 = Inr (fs, names) \<and>
      length fs = length names"
      using th [THEN conjunct2, THEN conjunct2, THEN conjunct2, THEN conjunct2, THEN conjunct1]
      by (cases x) metis
  next
    from 6 obtain x where "default_feature_map lib0 (NDArray [2, 2, 2] [1, 2, 3, 4, 5, 6, 7, 8])
        None None None None (Seed 1) = Inr x"
      by (rule not_isl_obtain)
    then show "\<exists>fs names s.
      default_feature_map lib0 (NDArray [2, 2, 2] [1, 2, 3, 4, 5, 6, 7, 8]) None None None None
        (Seed 1) = Inr ((fs, names), s) \<and>
      length fs = length names"
      using th [THEN conjunct2, THEN conjunct2, THEN conjunct2, THEN conjunct2, THEN conjunct2,
          THEN conjunct1]
      by (cases x) (metis prod.collapse)
  next
    from 7 obtain x where "feature_loop lib0 None None [(NDArray [2, 2] [1, 3, 5, 7], ''chan0'')]
        (Seed 1) [] [] = Inr x"
      by (rule not_isl_obtain)
    moreover have "length (concat ([] :: npfloat list list)) = length ([] :: string list)"
      by simp
    ultimately show "\<exists>all_fs all_names s.
      feature_loop lib0 None None [(NDArray [2, 2] [1, 3, 5, 7], ''chan0'')] (Seed 1) [] [] =
        Inr ((all_fs, all_names), s) \<and>
      length (concat all_fs) = length all_names"
      using th [THEN conjunct2, THEN conjunct2, THEN conjunct2, THEN conjunct2, THEN conjunct2,
          THEN conjunct2]
      by (cases x) (metis prod.collapse)
  qed
qed

end
